theory Spec2Isabelle
  imports Main "HOL-Library.AList" "HOL-Library.Char_ord" "HOL-Library.List_Lexorder"
begin

section \<open>Python values\<close>

text \<open>
  The gateway of \<^verbatim>\<open>main.py\<close> moves Python values around: request payloads, handler
  results and response bodies. A \<^verbatim>\<open>dict\<close> with string keys is an association list in
  insertion order (keys distinct); a \<^verbatim>\<open>str\<close> is a string of 8-bit characters. Python
  floats are IEEE doubles: infinity, minus infinity, not-a-number and the finite ones. The
  rounding of the finite ones is not modelled: their carrier \<open>'f\<close> and the operations on
  it are parameters (\<open>float_ops\<close> below). A handler can return any object: \<open>PObject c\<close>
  is an object of a class \<open>c\<close> that is none of the others nor a subclass of them (a
  \<^verbatim>\<open>set\<close>, a \<^verbatim>\<open>datetime\<close>, \<^verbatim>\<open>bytes\<close>). Not modelled are a \<^verbatim>\<open>dict\<close> with a key that is not
  a string and a \<^verbatim>\<open>str\<close> with a lone surrogate.
\<close>

datatype 'f pyfloat = Finite 'f | PosInf | NegInf | NaN

datatype 'f pyval =
    PNone
  | PBool bool
  | PInt int
  | PFloat "'f pyfloat"
  | PStr string
  | PList "'f pyval list"
  | PDict "(string \<times> 'f pyval) list"
  | PObject string

type_synonym 'f pydict = "(string \<times> 'f pyval) list"

text \<open>
  A raised exception, as far as the code looks at it: its class name, \<^verbatim>\<open>str(e)\<close>, and
  whether it is an instance of \<^verbatim>\<open>Exception\<close>, the class that both \<^verbatim>\<open>except\<close> clauses of
  the modelled code name. \<open>PyExc\<close> is an instance of \<^verbatim>\<open>Exception\<close>; \<open>PyExit\<close> is one
  of \<^verbatim>\<open>BaseException\<close> only, as \<^verbatim>\<open>SystemExit\<close> and \<^verbatim>\<open>KeyboardInterrupt\<close> are, and
  \<^verbatim>\<open>except Exception\<close> does not catch it.
\<close>

datatype pyexc =
    PyExc (exc_class: string) (exc_str: string)
  | PyExit (exc_class: string) (exc_str: string)

fun is_Exception :: "pyexc \<Rightarrow> bool" where
  "is_Exception (PyExc c m) = True"
| "is_Exception (PyExit c m) = False"

section \<open>Environment and requests\<close>

type_synonym environ = "string \<Rightarrow> string option"

text \<open>\<^verbatim>\<open>os.getenv(name, default)\<close>\<close>

definition os_getenv :: "environ \<Rightarrow> string \<Rightarrow> string \<Rightarrow> string" where
  "os_getenv env name dflt = (case env name of None \<Rightarrow> dflt | Some v \<Rightarrow> v)"

text \<open>
  A request, as far as the credential checks read it: its headers, names in lower case as
  the server hands them over. \<^verbatim>\<open>request.headers.get(k)\<close> is the first header of that name,
  or \<^verbatim>\<open>None\<close>.
\<close>

record request =
  headers :: "(string \<times> string) list"

definition headers_get :: "request \<Rightarrow> string \<Rightarrow> string option" where
  "headers_get request k = map_of (headers request) k"

text \<open>
  What leaves a dependency or an endpoint when it does not return: an \<^verbatim>\<open>HTTPException\<close>,
  which the framework answers with that status and detail, or any other exception, which
  the code of the gateway did not catch.
\<close>

datatype raised =
    HTTPException (exc_status_code: nat) (exc_detail: string)
  | Uncaught pyexc

datatype APIKeyHeader = APIKeyHeader (api_key: string)

section \<open>Credential checks\<close>

text \<open>
  \<^verbatim>\<open>main.py\<close>, line 150: \<^verbatim>\<open>API_KEY = os.getenv("API_KEY", "changeme")\<close>, evaluated once
  when the module is loaded.
\<close>

definition API_KEY :: "environ \<Rightarrow> string" where
  "API_KEY env = os_getenv env ''API_KEY'' ''changeme''"

text \<open>
  \<^verbatim>\<open>main.py\<close>, \<^verbatim>\<open>api_dependency()._dep\<close>; the first argument is the module constant
  \<^verbatim>\<open>API_KEY\<close>.
  \<^verbatim>\<open>
    key = request.headers.get("x-api-key")
    if not key or key != API_KEY:
        raise HTTPException(status_code=401, detail="Unauthorized")
    return APIKeyHeader(api_key=key)
  \<close>
\<close>

definition api_dependency :: "string \<Rightarrow> request \<Rightarrow> raised + APIKeyHeader" where
  "api_dependency api_key_const request =
     (case headers_get request ''x-api-key'' of
        None \<Rightarrow> Inl (HTTPException 401 ''Unauthorized'')
      | Some key \<Rightarrow>
          if key = [] \<or> key \<noteq> api_key_const
          then Inl (HTTPException 401 ''Unauthorized'')
          else Inr (APIKeyHeader key))"

text \<open>
  \<^verbatim>\<open>pipelines_list.py\<close>, \<^verbatim>\<open>require_api_key()._dep\<close>: the environment is read at each
  request.
  \<^verbatim>\<open>
    api_key_configured = os.getenv(API_KEY_ENV, "")
    provided = request.headers.get("x-api-key")
    if not api_key_configured or provided != api_key_configured:
        raise HTTPException(status_code=401, detail="Unauthorized")
  \<close>
\<close>

definition API_KEY_ENV :: string where
  "API_KEY_ENV = ''API_KEY''"

definition require_api_key :: "environ \<Rightarrow> request \<Rightarrow> raised + unit" where
  "require_api_key env request =
     (let api_key_configured = os_getenv env API_KEY_ENV '''';
          provided = headers_get request ''x-api-key''
      in if api_key_configured = [] \<or> provided \<noteq> Some api_key_configured
         then Inl (HTTPException 401 ''Unauthorized'')
         else Inr ())"

section \<open>Strings and paths\<close>

text \<open>\<^verbatim>\<open>s.endswith(suffix)\<close>\<close>

definition endswith :: "string \<Rightarrow> string \<Rightarrow> bool" where
  "endswith s suffix =
     (length suffix \<le> length s \<and> drop (length s - length suffix) s = suffix)"

text \<open>\<^verbatim>\<open>fname[:-3]\<close>: all but the last three characters (empty when there are at most three).\<close>

definition drop_last3 :: "string \<Rightarrow> string" where
  "drop_last3 fname = take (length fname - 3) fname"

text \<open>\<^verbatim>\<open>os.path.join(a, b)\<close> on POSIX.\<close>

definition os_path_join :: "string \<Rightarrow> string \<Rightarrow> string" where
  "os_path_join a b =
     (if b \<noteq> [] \<and> hd b = CHR ''/'' then b
      else if a = [] \<or> last a = CHR ''/'' then a @ b
      else a @ ''/'' @ b)"

section \<open>The registry and the state of the gateway\<close>

text \<open>
  What a call of a handler does: it returns a value or raises. A handler may read or change
  the world outside the gateway (the clock, the network); \<open>'w\<close> is the state of that
  world, and a handler maps the payload and the world to an outcome and the world after.
  The registry is not part of that world: handlers do not hold it.
\<close>

datatype 'f outcome = Returns "'f pyval" | Raises pyexc

type_synonym ('f, 'w) handler = "'f pydict \<Rightarrow> 'w \<Rightarrow> 'f outcome \<times> 'w"

text \<open>
  The value stored under an id: \<^verbatim>\<open>{"module": mod_name, "file": fpath, "callable": pipe_fn}\<close>.
\<close>

record ('f, 'w) entry =
  entry_module :: string
  entry_file :: string
  entry_callable :: "('f, 'w) handler"

datatype log_record = LogInfo string | LogWarning string | LogException string

text \<open>
  The mutable state: the module global \<^verbatim>\<open>_PIPELINES_REGISTRY\<close> (a \<^verbatim>\<open>dict\<close>, as an
  association list in insertion order), what has been written to the logger, and the world
  the handlers act on.
\<close>

record ('f, 'w) gateway =
  PIPELINES_REGISTRY :: "(string \<times> ('f, 'w) entry) list"
  logger :: "log_record list"
  world :: 'w

text \<open>
  \<^verbatim>\<open>d[k] = v\<close> on a \<^verbatim>\<open>dict\<close>: an existing key keeps its place and takes the new value, a
  new key goes last.
\<close>

definition dict_setitem :: "'k \<Rightarrow> 'v \<Rightarrow> ('k \<times> 'v) list \<Rightarrow> ('k \<times> 'v) list" where
  "dict_setitem k v d = AList.update k v d"

section \<open>Source units and the file system\<close>

text \<open>
  What the scan finds when it loads a unit. The attribute \<^verbatim>\<open>pipe\<close> of the instance is
  missing, or a value that is not callable, or a callable. The attributes \<^verbatim>\<open>id\<close> and
  \<^verbatim>\<open>name\<close> are strings when present; \<open>None\<close> stands for a missing attribute and for
  one set to \<^verbatim>\<open>None\<close> (\<^verbatim>\<open>getattr(obj, "id", None)\<close> gives \<^verbatim>\<open>None\<close> for both).
\<close>

datatype ('f, 'w) pipe_attr = NoAttr | NotCallable "'f pyval" | Callable "('f, 'w) handler"

record ('f, 'w) pipeline_obj =
  inst_pipe :: "('f, 'w) pipe_attr"
  inst_id :: "string option"
  inst_name :: "string option"

text \<open>
  The body of the \<^verbatim>\<open>try\<close> for one unit, up to the instance:
  \<^item> \<open>NoSpec\<close>: \<^verbatim>\<open>spec_from_file_location\<close> gave no spec or a spec without a loader;
  \<^item> \<open>LoadRaises e\<close>: \<^verbatim>\<open>spec_from_file_location\<close>, \<^verbatim>\<open>module_from_spec\<close>, \<^verbatim>\<open>exec_module\<close>,
    \<^verbatim>\<open>PipelineCls()\<close> or a \<^verbatim>\<open>getattr\<close> raised \<open>e\<close>, an \<^verbatim>\<open>Exception\<close> or not (a
    module that calls \<^verbatim>\<open>sys.exit\<close> when it is executed raises \<^verbatim>\<open>SystemExit\<close>);
  \<^item> \<open>NoPipelineCls\<close>: the module has no attribute \<^verbatim>\<open>Pipeline\<close> (or it is \<^verbatim>\<open>None\<close>);
  \<^item> \<open>Instance obj\<close>: \<^verbatim>\<open>PipelineCls()\<close> returned \<open>obj\<close>.
\<close>

datatype ('f, 'w) load_result =
    NoSpec
  | LoadRaises pyexc
  | NoPipelineCls
  | Instance "('f, 'w) pipeline_obj"

record ('f, 'w) dir_entry =
  fname :: string
  load :: "('f, 'w) load_result"

text \<open>
  A path of the file system: not a directory (\<^verbatim>\<open>os.path.isdir\<close> is false), a directory
  that \<^verbatim>\<open>os.listdir\<close> fails on, or a directory with its entries in the order
  \<^verbatim>\<open>os.listdir\<close> enumerates them.
\<close>

datatype ('f, 'w) path_state =
    NotADirectory
  | ListdirRaises pyexc
  | Listing "('f, 'w) dir_entry list"

type_synonym ('f, 'w) filesystem = "string \<Rightarrow> ('f, 'w) path_state"

section \<open>Discovery: \<^verbatim>\<open>_discover_pipelines\<close>\<close>

text \<open>
  Truth value of an attribute: a missing attribute, \<^verbatim>\<open>None\<close> and the empty string are
  falsy. \<^verbatim>\<open>x or y\<close> is \<open>x\<close> when \<open>x\<close> is truthy and \<open>y\<close> otherwise.
\<close>

definition truthy :: "string option \<Rightarrow> bool" where
  "truthy x = (case x of None \<Rightarrow> False | Some s \<Rightarrow> s \<noteq> [])"

definition py_or :: "string option \<Rightarrow> string option \<Rightarrow> string option" where
  "py_or x y = (if truthy x then x else y)"

text \<open>\<^verbatim>\<open>str(pid)\<close>: the string itself, and \<^verbatim>\<open>'None'\<close> for \<^verbatim>\<open>None\<close>.\<close>

definition py_str :: "string option \<Rightarrow> string" where
  "py_str x = (case x of None \<Rightarrow> ''None'' | Some s \<Rightarrow> s)"

text \<open>
  \<^verbatim>\<open>pid = getattr(obj, "id", None) or getattr(obj, "name", None) or fname[:-3]\<close>, and the
  key \<^verbatim>\<open>str(pid)\<close>.
\<close>

definition derive_pid :: "('f, 'w) pipeline_obj \<Rightarrow> string \<Rightarrow> string" where
  "derive_pid obj file_name =
     py_str (py_or (py_or (inst_id obj) (inst_name obj)) (Some (drop_last3 file_name)))"

text \<open>
  One iteration of the loop \<^verbatim>\<open>for fname in os.listdir(base_dir)\<close> (lines 362 to 387). The
  result is the exception that leaves the loop, if any, and the state after. The clause
  \<^verbatim>\<open>except Exception as e\<close> logs and skips an exception that is an instance of
  \<^verbatim>\<open>Exception\<close>; any other one is not caught and ends the loop, with nothing logged.
\<close>

definition scan_unit ::
  "string \<Rightarrow> ('f, 'w) dir_entry \<Rightarrow> ('f, 'w) gateway \<Rightarrow> pyexc option \<times> ('f, 'w) gateway" where
  "scan_unit base_dir u st =
     (if \<not> endswith (fname u) ''.py'' then (None, st)
      else
        let fpath = os_path_join base_dir (fname u);
            mod_name = ''pipelines.'' @ drop_last3 (fname u)
        in case load u of
             NoSpec \<Rightarrow> (None, st)
           | LoadRaises e \<Rightarrow>
               if is_Exception e
               then (None,
                     st\<lparr>logger := logger st @
                        [LogWarning (''Skipping pipeline '' @ fpath @ '' due to load error: ''
                                     @ exc_str e)]\<rparr>)
               else (Some e, st)
           | NoPipelineCls \<Rightarrow> (None, st)
           | Instance obj \<Rightarrow>
               (case inst_pipe obj of
                  Callable pipe_fn \<Rightarrow>
                    (None,
                     st\<lparr>PIPELINES_REGISTRY :=
                          dict_setitem (derive_pid obj (fname u))
                            \<lparr>entry_module = mod_name, entry_file = fpath,
                             entry_callable = pipe_fn\<rparr>
                            (PIPELINES_REGISTRY st)\<rparr>)
                | NoAttr \<Rightarrow> (None, st)
                | NotCallable v \<Rightarrow> (None, st)))"

text \<open>The loop: it goes on to the next unit unless an exception left the iteration.\<close>

fun scan_units ::
  "string \<Rightarrow> ('f, 'w) dir_entry list \<Rightarrow> ('f, 'w) gateway
     \<Rightarrow> pyexc option \<times> ('f, 'w) gateway" where
  "scan_units base_dir [] st = (None, st)"
| "scan_units base_dir (u # us) st =
     (case scan_unit base_dir u st of
        (Some ex, st') \<Rightarrow> (Some ex, st')
      | (None, st') \<Rightarrow> scan_units base_dir us st')"

text \<open>
  \<^verbatim>\<open>_discover_pipelines(base_dir)\<close>: the registry is cleared first, in place; then the
  units are scanned one by one. The result is the exception that leaves the function, if
  any (\<^verbatim>\<open>os.listdir\<close> is outside the \<^verbatim>\<open>try\<close>), and the state after.
\<close>

definition discover_pipelines ::
  "('f, 'w) filesystem \<Rightarrow> string \<Rightarrow> ('f, 'w) gateway \<Rightarrow> pyexc option \<times> ('f, 'w) gateway" where
  "discover_pipelines fs base_dir st0 =
     (let st = st0\<lparr>PIPELINES_REGISTRY := []\<rparr>;
          not_present = st\<lparr>logger := logger st @
             [LogInfo (''PIPELINES_DIR not present or not a directory: '' @ base_dir)]\<rparr>
      in if base_dir = [] then (None, not_present)
         else (case fs base_dir of
                 NotADirectory \<Rightarrow> (None, not_present)
               | ListdirRaises e \<Rightarrow> (Some e, st)
               | Listing units \<Rightarrow> scan_units base_dir units st))"

text \<open>
  The states the gateway passes through during a call of \<^verbatim>\<open>_discover_pipelines\<close>, in
  order: the state at the call, the state after \<^verbatim>\<open>_PIPELINES_REGISTRY.clear()\<close>, and the
  state after each iteration of the loop that ran to its end (or after the log line, when
  there is no directory).
\<close>

fun scan_states ::
  "string \<Rightarrow> ('f, 'w) dir_entry list \<Rightarrow> ('f, 'w) gateway \<Rightarrow> ('f, 'w) gateway list" where
  "scan_states base_dir [] st = []"
| "scan_states base_dir (u # us) st =
     (case scan_unit base_dir u st of
        (Some ex, st') \<Rightarrow> []
      | (None, st') \<Rightarrow> st' # scan_states base_dir us st')"

definition discover_states ::
  "('f, 'w) filesystem \<Rightarrow> string \<Rightarrow> ('f, 'w) gateway \<Rightarrow> ('f, 'w) gateway list" where
  "discover_states fs base_dir st0 =
     (let st = st0\<lparr>PIPELINES_REGISTRY := []\<rparr>;
          not_present = st\<lparr>logger := logger st @
             [LogInfo (''PIPELINES_DIR not present or not a directory: '' @ base_dir)]\<rparr>
      in st0 # st #
         (if base_dir = [] then [not_present]
          else (case fs base_dir of
                  NotADirectory \<Rightarrow> [not_present]
                | ListdirRaises e \<Rightarrow> []
                | Listing units \<Rightarrow> scan_states base_dir units st)))"

section \<open>The routes: \<^verbatim>\<open>attach_pipelines_routes\<close>\<close>

datatype 'f JSONResponse = JSONResponse (status_code: nat) (content: "'f pyval")

text \<open>
  \<^verbatim>\<open>_pipelines_list\<close>: \<^verbatim>\<open>return {"pipelines": sorted(list(_PIPELINES_REGISTRY.keys()))}\<close>.
  Python compares strings position by position on their code points, which is the
  lexicographic order of the bytes of their UTF-8 encoding.
\<close>

definition pipelines_list :: "('f, 'w) gateway \<Rightarrow> 'f pyval \<times> ('f, 'w) gateway" where
  "pipelines_list st =
     (PDict [(''pipelines'', PList (map PStr (sort (map fst (PIPELINES_REGISTRY st)))))], st)"

text \<open>\<^verbatim>\<open>isinstance(result, dict)\<close>\<close>

fun is_dict :: "'f pyval \<Rightarrow> bool" where
  "is_dict (PDict d) = True"
| "is_dict v = False"

text \<open>
  \<^verbatim>\<open>JSONResponse(status_code=..., content=...)\<close> is the framework's class. Its constructor
  renders the content at once, with \<^verbatim>\<open>json.dumps(content, allow_nan=False, ...)\<close>, which
  walks the value in order and raises \<^verbatim>\<open>ValueError\<close> at the first float that is not finite
  and at the first integer that \<^verbatim>\<open>str\<close> refuses to convert, one of more than 4300
  decimal digits (the interpreter's default limit), and \<^verbatim>\<open>TypeError\<close> at the first object
  of a class it does not know. Of the values of \<open>'f pyval\<close> these are the ones the
  renderer refuses; the messages are the interpreter's.
\<close>

definition out_of_range_float :: pyexc where
  "out_of_range_float = PyExc ''ValueError'' ''Out of range float values are not JSON compliant''"

definition int_str_limit :: pyexc where
  "int_str_limit =
     PyExc ''ValueError''
       (''Exceeds the limit (4300 digits) for integer string conversion; ''
        @ ''use sys.set_int_max_str_digits() to increase the limit'')"

definition not_serializable :: "string \<Rightarrow> pyexc" where
  "not_serializable c = PyExc ''TypeError'' (''Object of type '' @ c @ '' is not JSON serializable'')"

definition int_str_too_long :: "int \<Rightarrow> bool" where
  "int_str_too_long n = (10 ^ 4300 \<le> \<bar>n\<bar>)"

fun first_refusal :: "pyexc option list \<Rightarrow> pyexc option" where
  "first_refusal [] = None"
| "first_refusal (None # rs) = first_refusal rs"
| "first_refusal (Some ex # rs) = Some ex"

fun json_refusal :: "'f pyval \<Rightarrow> pyexc option" where
  "json_refusal PNone = None"
| "json_refusal (PBool b) = None"
| "json_refusal (PInt n) = (if int_str_too_long n then Some int_str_limit else None)"
| "json_refusal (PFloat x) = (case x of Finite y \<Rightarrow> None | _ \<Rightarrow> Some out_of_range_float)"
| "json_refusal (PStr s) = None"
| "json_refusal (PList xs) = first_refusal (map json_refusal xs)"
| "json_refusal (PDict d) = first_refusal (map (\<lambda>kv. json_refusal (snd kv)) d)"
| "json_refusal (PObject c) = Some (not_serializable c)"

definition JSONResponse_init :: "nat \<Rightarrow> 'f pyval \<Rightarrow> pyexc + 'f JSONResponse" where
  "JSONResponse_init status body =
     (case json_refusal body of
        Some ex \<Rightarrow> Inl ex
      | None \<Rightarrow> Inr (JSONResponse status body))"

text \<open>
  The body of the \<^verbatim>\<open>try\<close> in \<^verbatim>\<open>_pipelines_call\<close>, after the handler was called: what
  it returns or the exception that leaves it.
  \<^verbatim>\<open>
    result = entry["callable"](body=payload)
    if isinstance(result, dict):
        return JSONResponse(status_code=200, content=result)
    return JSONResponse(status_code=200, content={"result": result})
  \<close>
\<close>

definition call_body :: "'f outcome \<Rightarrow> pyexc + 'f JSONResponse" where
  "call_body outcome =
     (case outcome of
        Raises ex \<Rightarrow> Inl ex
      | Returns result \<Rightarrow>
          if is_dict result then JSONResponse_init 200 result
          else JSONResponse_init 200 (PDict [(''result'', result)]))"

text \<open>
  \<^verbatim>\<open>_pipelines_call(name, payload)\<close>: the result is the exception that leaves the endpoint
  or the response returned, and the state after. \<^verbatim>\<open>except Exception as e\<close> logs an
  instance of \<^verbatim>\<open>Exception\<close> and raises \<^verbatim>\<open>HTTPException(500, str(e))\<close>; any other
  exception is not caught.
\<close>

definition pipelines_call ::
  "string \<Rightarrow> 'f pydict option \<Rightarrow> ('f, 'w) gateway
     \<Rightarrow> (raised + 'f JSONResponse) \<times> ('f, 'w) gateway" where
  "pipelines_call name payload0 st =
     (let payload = (case payload0 of None \<Rightarrow> [] | Some p \<Rightarrow> p)
      in case map_of (PIPELINES_REGISTRY st) name of
           None \<Rightarrow>
             (Inl (HTTPException 404 (''pipeline '' @ [CHR 0x27] @ name @ [CHR 0x27]
                                       @ '' not found'')), st)
         | Some e \<Rightarrow>
             (case entry_callable e payload (world st) of
                (outcome, w) \<Rightarrow>
                  (case call_body outcome of
                     Inr response \<Rightarrow> (Inr response, st\<lparr>world := w\<rparr>)
                   | Inl ex \<Rightarrow>
                       if is_Exception ex
                       then (Inl (HTTPException 500 (exc_str ex)),
                             st\<lparr>world := w,
                                logger := logger st @
                                  [LogException (''Pipeline '' @ [CHR 0x27] @ name @ [CHR 0x27]
                                                 @ '' execution error: '' @ exc_str ex)]\<rparr>)
                       else (Inl (Uncaught ex), st\<lparr>world := w\<rparr>))))"

text \<open>
  The two routes as the framework serves them: the dependency \<^verbatim>\<open>Depends(api_dependency())\<close>
  runs first and its exception ends the request; a plain value returned by the endpoint
  is sent with status 200.
\<close>

definition GET_pipelines ::
  "string \<Rightarrow> request \<Rightarrow> ('f, 'w) gateway
     \<Rightarrow> (raised + 'f JSONResponse) \<times> ('f, 'w) gateway" where
  "GET_pipelines api_key_const request st =
     (case api_dependency api_key_const request of
        Inl ex \<Rightarrow> (Inl ex, st)
      | Inr dep \<Rightarrow>
          (case pipelines_list st of (body, st') \<Rightarrow> (Inr (JSONResponse 200 body), st')))"

definition POST_pipelines ::
  "string \<Rightarrow> request \<Rightarrow> string \<Rightarrow> 'f pydict option \<Rightarrow> ('f, 'w) gateway
     \<Rightarrow> (raised + 'f JSONResponse) \<times> ('f, 'w) gateway" where
  "POST_pipelines api_key_const request name payload st =
     (case api_dependency api_key_const request of
        Inl ex \<Rightarrow> (Inl ex, st)
      | Inr dep \<Rightarrow> pipelines_call name payload st)"

section \<open>The summing handler: \<^verbatim>\<open>pipelines/math_add.py\<close>\<close>

text \<open>
  The float operations the handler uses. Rounding is not modelled: \<open>float_of_int n\<close> is
  the double nearest to an integer \<open>n\<close> in range, \<open>float_add x y\<close> is the sum of two
  finite doubles, which is finite or, on overflow, an infinity.
\<close>

record 'f float_ops =
  float_of_int :: "int \<Rightarrow> 'f"
  float_add :: "'f \<Rightarrow> 'f \<Rightarrow> 'f pyfloat"

text \<open>
  \<^verbatim>\<open>x + y\<close> on floats: not-a-number absorbs everything, opposite infinities give
  not-a-number, an infinity absorbs the rest.
\<close>

fun py_fadd :: "'f float_ops \<Rightarrow> 'f pyfloat \<Rightarrow> 'f pyfloat \<Rightarrow> 'f pyfloat" where
  "py_fadd ops NaN y = NaN"
| "py_fadd ops x NaN = NaN"
| "py_fadd ops PosInf NegInf = NaN"
| "py_fadd ops NegInf PosInf = NaN"
| "py_fadd ops PosInf y = PosInf"
| "py_fadd ops NegInf y = NegInf"
| "py_fadd ops (Finite x) PosInf = PosInf"
| "py_fadd ops (Finite x) NegInf = NegInf"
| "py_fadd ops (Finite x) (Finite y) = float_add ops x y"

text \<open>
  \<^verbatim>\<open>isinstance(x, (int, float))\<close>. \<^verbatim>\<open>bool\<close> is a subclass of \<^verbatim>\<open>int\<close>: \<^verbatim>\<open>True\<close> and
  \<^verbatim>\<open>False\<close> pass the test and count as 1 and 0.
\<close>

datatype 'f number = NInt int | NFloat "'f pyfloat"

fun as_number :: "'f pyval \<Rightarrow> 'f number option" where
  "as_number (PBool b) = Some (NInt (if b then 1 else 0))"
| "as_number (PInt i) = Some (NInt i)"
| "as_number (PFloat x) = Some (NFloat x)"
| "as_number v = None"

definition is_number :: "'f pyval \<Rightarrow> bool" where
  "is_number v = (as_number v \<noteq> None)"

text \<open>
  \<^verbatim>\<open>float(x)\<close> on a number. An integer whose nearest double would be beyond the largest
  finite one raises \<^verbatim>\<open>OverflowError\<close>: that is from \<open>2^1024 - 2^970\<close> on, the midpoint
  between the largest double and \<open>2^1024\<close>.
\<close>

definition int_too_large :: pyexc where
  "int_too_large = PyExc ''OverflowError'' ''int too large to convert to float''"

definition py_float :: "'f float_ops \<Rightarrow> 'f number \<Rightarrow> pyexc + 'f pyfloat" where
  "py_float ops x =
     (case x of
        NFloat y \<Rightarrow> Inr y
      | NInt n \<Rightarrow>
          if \<bar>n\<bar> \<ge> 2 ^ 1024 - 2 ^ 970 then Inl int_too_large
          else Inr (Finite (float_of_int ops n)))"

text \<open>
  \<^verbatim>\<open>a + b\<close> on numbers: exact on two integers; otherwise both sides are taken as floats
  (an integer operand is converted, which can overflow).
\<close>

definition py_add :: "'f float_ops \<Rightarrow> 'f number \<Rightarrow> 'f number \<Rightarrow> pyexc + 'f number" where
  "py_add ops a b =
     (case (a, b) of
        (NInt m, NInt n) \<Rightarrow> Inr (NInt (m + n))
      | _ \<Rightarrow>
          (case py_float ops a of
             Inl ex \<Rightarrow> Inl ex
           | Inr x \<Rightarrow>
               (case py_float ops b of
                  Inl ex \<Rightarrow> Inl ex
                | Inr y \<Rightarrow> Inr (NFloat (py_fadd ops x y)))))"

text \<open>
  \<^verbatim>\<open>sum(values)\<close>: the loop \<^verbatim>\<open>acc = 0; for x in values: acc = acc + x\<close>. On an element that
  is not a number the addition raises \<^verbatim>\<open>TypeError\<close> (its message, which names the two
  types, is shortened here; the handler checks the elements before it sums).
\<close>

fun py_sum_from :: "'f float_ops \<Rightarrow> 'f number \<Rightarrow> 'f pyval list \<Rightarrow> pyexc + 'f number" where
  "py_sum_from ops acc [] = Inr acc"
| "py_sum_from ops acc (x # xs) =
     (case as_number x of
        None \<Rightarrow> Inl (PyExc ''TypeError'' ''unsupported operand type(s) for +'')
      | Some n \<Rightarrow>
          (case py_add ops acc n of
             Inl ex \<Rightarrow> Inl ex
           | Inr acc' \<Rightarrow> py_sum_from ops acc' xs))"

definition py_sum :: "'f float_ops \<Rightarrow> 'f pyval list \<Rightarrow> pyexc + 'f number" where
  "py_sum ops xs = py_sum_from ops (NInt 0) xs"

text \<open>
  \<^verbatim>\<open>Pipeline.pipe(self, user_message=None, model_id=None, messages=None, body=None)\<close>; the
  gateway passes \<^verbatim>\<open>body\<close> only, a \<^verbatim>\<open>dict\<close>.
  \<^verbatim>\<open>
    body = body or {}
    values = body.get("values", [])
    if not isinstance(values, list) or not all(isinstance(x, (int, float)) for x in values):
        return {"error": "body.values must be a list of numbers"}
    return {"sum": float(sum(values))}
  \<close>
\<close>

definition values_error :: "'f pyval" where
  "values_error = PDict [(''error'', PStr ''body.values must be a list of numbers'')]"

definition math_add_pipe :: "'f float_ops \<Rightarrow> 'f pydict option \<Rightarrow> pyexc + 'f pyval" where
  "math_add_pipe ops body0 =
     (let body = (case body0 of None \<Rightarrow> [] | Some b \<Rightarrow> b);
          vals = (case map_of body ''values'' of None \<Rightarrow> PList [] | Some v \<Rightarrow> v)
      in case vals of
           PList xs \<Rightarrow>
             if \<not> list_all is_number xs then Inr values_error
             else (case py_sum ops xs of
                     Inl ex \<Rightarrow> Inl ex
                   | Inr s \<Rightarrow>
                       (case py_float ops s of
                          Inl ex \<Rightarrow> Inl ex
                        | Inr y \<Rightarrow> Inr (PDict [(''sum'', PFloat y)])))
         | _ \<Rightarrow> Inr values_error)"

text \<open>
  The bound method as the registry stores it and the gateway calls it,
  \<^verbatim>\<open>entry["callable"](body=payload)\<close>. It leaves the world alone.
\<close>

definition math_add_callable :: "'f float_ops \<Rightarrow> ('f, 'w) handler" where
  "math_add_callable ops payload w =
     (case math_add_pipe ops (Some payload) of
        Inl ex \<Rightarrow> (Raises ex, w)
      | Inr v \<Rightarrow> (Returns v, w))"

text \<open>The unit \<^verbatim>\<open>math_add.py\<close> as the scan finds it: \<^verbatim>\<open>id = "math_add"\<close>, \<^verbatim>\<open>name = "math_add"\<close>.\<close>

definition math_add_unit :: "'f float_ops \<Rightarrow> ('f, 'w) dir_entry" where
  "math_add_unit ops =
     \<lparr>fname = ''math_add.py'',
      load = Instance \<lparr>inst_pipe = Callable (math_add_callable ops),
                       inst_id = Some ''math_add'', inst_name = Some ''math_add''\<rparr>\<rparr>"

text \<open>
  Float operations for running the model on small integers: a finite double that is an
  integer of magnitude at most \<open>2^53\<close> is written as that integer, and on those
  conversion and addition are exact.
\<close>

definition small_floats :: "int float_ops" where
  "small_floats = \<lparr>float_of_int = (\<lambda>n. n), float_add = (\<lambda>x y. Finite (x + y))\<rparr>"

section \<open>What a unit registers\<close>

text \<open>
  The vocabulary of the statements about the scan. A unit is valid when its name ends in
  \<^verbatim>\<open>.py\<close>, it loads without raising, its module has the class \<^verbatim>\<open>Pipeline\<close> and the
  instance has a callable \<^verbatim>\<open>pipe\<close>. \<open>registration\<close> is the key and the entry that the
  assignment on lines 381 to 385 stores for a valid unit; \<open>skip_warning\<close> is the line that
  the \<^verbatim>\<open>except\<close> clause logs for a unit that raises an \<^verbatim>\<open>Exception\<close>. A unit exits
  when loading it raises an exception that is not an \<^verbatim>\<open>Exception\<close>; \<open>scanned\<close> are
  the units whose iteration runs to its end, those before the first unit that exits.
\<close>

definition valid_unit :: "('f, 'w) dir_entry \<Rightarrow> bool" where
  "valid_unit u =
     (endswith (fname u) ''.py'' \<and>
      (case load u of
         Instance obj \<Rightarrow> (case inst_pipe obj of Callable pipe_fn \<Rightarrow> True | _ \<Rightarrow> False)
       | _ \<Rightarrow> False))"

definition registration ::
  "string \<Rightarrow> ('f, 'w) dir_entry \<Rightarrow> (string \<times> ('f, 'w) entry) option" where
  "registration base_dir u =
     (if endswith (fname u) ''.py'' then
        (case load u of
           Instance obj \<Rightarrow>
             (case inst_pipe obj of
                Callable pipe_fn \<Rightarrow>
                  Some (derive_pid obj (fname u),
                        \<lparr>entry_module = ''pipelines.'' @ drop_last3 (fname u),
                         entry_file = os_path_join base_dir (fname u),
                         entry_callable = pipe_fn\<rparr>)
              | _ \<Rightarrow> None)
         | _ \<Rightarrow> None)
      else None)"

definition skip_warning :: "string \<Rightarrow> ('f, 'w) dir_entry \<Rightarrow> log_record option" where
  "skip_warning base_dir u =
     (if endswith (fname u) ''.py'' then
        (case load u of
           LoadRaises e \<Rightarrow>
             if is_Exception e
             then Some (LogWarning (''Skipping pipeline '' @ os_path_join base_dir (fname u)
                                    @ '' due to load error: '' @ exc_str e))
             else None
         | _ \<Rightarrow> None)
      else None)"

definition unit_exits :: "('f, 'w) dir_entry \<Rightarrow> bool" where
  "unit_exits u =
     (endswith (fname u) ''.py'' \<and>
      (case load u of LoadRaises e \<Rightarrow> \<not> is_Exception e | _ \<Rightarrow> False))"

definition scanned :: "('f, 'w) dir_entry list \<Rightarrow> ('f, 'w) dir_entry list" where
  "scanned units = takeWhile (\<lambda>u. \<not> unit_exits u) units"

text \<open>
  The last-write-wins fold: the pairs are stored one after the other, in order, a later
  pair overwriting an earlier one with the same key.
\<close>

definition last_write_wins :: "('k \<times> 'v) list \<Rightarrow> ('k \<times> 'v) list \<Rightarrow> ('k \<times> 'v) list" where
  "last_write_wins regs d = fold (\<lambda>(k, v). dict_setitem k v) regs d"

section \<open>The specification's wording of two properties\<close>

text \<open>
  Atomic replacement as the specification words it: every state the scan passes through
  holds the registry of before the scan or the registry of after it.
\<close>

definition spec_atomic_replace ::
  "('f, 'w) filesystem \<Rightarrow> string \<Rightarrow> ('f, 'w) gateway \<Rightarrow> bool" where
  "spec_atomic_replace fs base_dir st0 =
     (\<forall>s \<in> set (discover_states fs base_dir st0).
        PIPELINES_REGISTRY s = PIPELINES_REGISTRY st0 \<or>
        PIPELINES_REGISTRY s = PIPELINES_REGISTRY (snd (discover_pipelines fs base_dir st0)))"

text \<open>
  The derived id as the specification words it: the attribute \<^verbatim>\<open>id\<close> if present, else the
  attribute \<^verbatim>\<open>name\<close> if present, else the base name of the file; and the registry built
  with it.
\<close>

definition spec_derived_id :: "('f, 'w) pipeline_obj \<Rightarrow> string \<Rightarrow> string" where
  "spec_derived_id obj file_name =
     (case inst_id obj of
        Some i \<Rightarrow> i
      | None \<Rightarrow> (case inst_name obj of Some n \<Rightarrow> n | None \<Rightarrow> drop_last3 file_name))"

definition spec_registration ::
  "string \<Rightarrow> ('f, 'w) dir_entry \<Rightarrow> (string \<times> ('f, 'w) entry) option" where
  "spec_registration base_dir u =
     (if endswith (fname u) ''.py'' then
        (case load u of
           Instance obj \<Rightarrow>
             (case inst_pipe obj of
                Callable pipe_fn \<Rightarrow>
                  Some (spec_derived_id obj (fname u),
                        \<lparr>entry_module = ''pipelines.'' @ drop_last3 (fname u),
                         entry_file = os_path_join base_dir (fname u),
                         entry_callable = pipe_fn\<rparr>)
              | _ \<Rightarrow> None)
         | _ \<Rightarrow> None)
      else None)"

definition spec_registry ::
  "string \<Rightarrow> ('f, 'w) dir_entry list \<Rightarrow> (string \<times> ('f, 'w) entry) list" where
  "spec_registry base_dir units =
     last_write_wins (List.map_filter (spec_registration base_dir) units) []"

section \<open>The float sum, described on its own\<close>



section \<open>Example inputs\<close>

text \<open>Two simple handlers: one returns a fixed value, one raises a fixed exception.\<close>

definition returning :: "'f pyval \<Rightarrow> ('f, 'w) handler" where
  "returning v payload w = (Returns v, w)"

definition raising :: "pyexc \<Rightarrow> ('f, 'w) handler" where
  "raising ex payload w = (Raises ex, w)"

text \<open>
  A directory like the repository's \<^verbatim>\<open>pipelines/\<close>, where \<^verbatim>\<open>echo.py\<close> and
  \<^verbatim>\<open>time_unix.py\<close> both declare the id \<^verbatim>\<open>time_unix\<close>, with some units added that the
  scan skips.
\<close>

definition echo_unit :: "(int, unit) dir_entry" where
  "echo_unit =
     \<lparr>fname = ''echo.py'',
      load = Instance \<lparr>inst_pipe = Callable (returning (PDict [(''epoch'', PInt 0)])),
                       inst_id = Some ''time_unix'', inst_name = Some ''time_unix''\<rparr>\<rparr>"

definition example_units :: "(int, unit) dir_entry list" where
  "example_units =
     [\<lparr>fname = ''notes.txt'', load = NoSpec\<rparr>,
      \<lparr>fname = ''broken.py'', load = LoadRaises (PyExc ''SyntaxError'' ''invalid syntax'')\<rparr>,
      echo_unit,
      \<lparr>fname = ''helper.py'', load = NoPipelineCls\<rparr>,
      math_add_unit small_floats,
      \<lparr>fname = ''nopipe.py'',
       load = Instance \<lparr>inst_pipe = NoAttr, inst_id = Some ''nopipe'', inst_name = None\<rparr>\<rparr>,
      \<lparr>fname = ''time_unix.py'',
       load = Instance \<lparr>inst_pipe = Callable (returning (PDict [(''epoch'', PInt 1)])),
                        inst_id = Some ''time_unix'', inst_name = Some ''time_unix''\<rparr>\<rparr>]"

definition example_fs :: "(int, unit) filesystem" where
  "example_fs path = (if path = ''./pipelines'' then Listing example_units else NotADirectory)"

text \<open>A gateway whose registry holds an entry from an earlier scan.\<close>

definition stale_gateway :: "(int, unit) gateway" where
  "stale_gateway =
     \<lparr>PIPELINES_REGISTRY =
        [(''old'', \<lparr>entry_module = ''pipelines.old'', entry_file = ''./pipelines/old.py'',
                    entry_callable = returning PNone\<rparr>)],
      logger = [], world = ()\<rparr>"

definition empty_gateway :: "(int, unit) gateway" where
  "empty_gateway = \<lparr>PIPELINES_REGISTRY = [], logger = [], world = ()\<rparr>"

text \<open>A unit whose \<^verbatim>\<open>id\<close> is the empty string and whose \<^verbatim>\<open>name\<close> is not.\<close>

definition unnamed_units :: "(int, unit) dir_entry list" where
  "unnamed_units =
     [\<lparr>fname = ''tool.py'',
       load = Instance \<lparr>inst_pipe = Callable (returning PNone),
                        inst_id = Some '''', inst_name = Some ''tool_name''\<rparr>\<rparr>]"

definition unnamed_fs :: "(int, unit) filesystem" where
  "unnamed_fs path = (if path = ''./pipelines'' then Listing unnamed_units else NotADirectory)"

text \<open>A gateway with three handlers registered, and a request that carries the secret.\<close>

definition example_registry :: "(string \<times> (int, unit) entry) list" where
  "example_registry =
     [(''math_add'', \<lparr>entry_module = ''pipelines.math_add'',
                      entry_file = ''./pipelines/math_add.py'',
                      entry_callable = math_add_callable small_floats\<rparr>),
      (''answer'', \<lparr>entry_module = ''pipelines.answer'', entry_file = ''./pipelines/answer.py'',
                    entry_callable = returning (PInt 42)\<rparr>),
      (''broken'', \<lparr>entry_module = ''pipelines.broken'', entry_file = ''./pipelines/broken.py'',
                    entry_callable = raising (PyExc ''ValueError'' ''boom'')\<rparr>)]"

definition example_gateway :: "(int, unit) gateway" where
  "example_gateway = \<lparr>PIPELINES_REGISTRY = example_registry, logger = [], world = ()\<rparr>"

definition authorized :: request where
  "authorized = \<lparr>headers = [(''x-api-key'', ''s3cret'')]\<rparr>"

text \<open>
  A directory whose second unit calls \<^verbatim>\<open>sys.exit(1)\<close> when it is loaded, between two
  valid units.
\<close>

definition first_unit :: "(int, unit) dir_entry" where
  "first_unit =
     \<lparr>fname = ''first.py'',
      load = Instance \<lparr>inst_pipe = Callable (returning PNone),
                       inst_id = Some ''first'', inst_name = None\<rparr>\<rparr>"

definition quits_unit :: "(int, unit) dir_entry" where
  "quits_unit = \<lparr>fname = ''quits.py'', load = LoadRaises (PyExit ''SystemExit'' ''1'')\<rparr>"

definition last_unit :: "(int, unit) dir_entry" where
  "last_unit =
     \<lparr>fname = ''last.py'',
      load = Instance \<lparr>inst_pipe = Callable (returning PNone),
                       inst_id = Some ''last'', inst_name = None\<rparr>\<rparr>"

definition exit_units :: "(int, unit) dir_entry list" where
  "exit_units = [first_unit, quits_unit, last_unit]"

definition exit_fs :: "(int, unit) filesystem" where
  "exit_fs path = (if path = ''./pipelines'' then Listing exit_units else NotADirectory)"

text \<open>
  A gateway with a handler that calls \<^verbatim>\<open>sys.exit(3)\<close>, one that returns a list, one that
  returns an integer of 4301 digits, and one that returns a \<^verbatim>\<open>set\<close>.
\<close>

definition huge_int :: int where
  "huge_int = 10 ^ 4300"

definition second_registry :: "(string \<times> (int, unit) entry) list" where
  "second_registry =
     [(''quits'', \<lparr>entry_module = ''pipelines.quits'', entry_file = ''./pipelines/quits.py'',
                   entry_callable = raising (PyExit ''SystemExit'' ''3'')\<rparr>),
      (''pair'', \<lparr>entry_module = ''pipelines.pair'', entry_file = ''./pipelines/pair.py'',
                  entry_callable = returning (PList [PInt 1, PStr ''two''])\<rparr>),
      (''huge'', \<lparr>entry_module = ''pipelines.huge'', entry_file = ''./pipelines/huge.py'',
                  entry_callable = returning (PInt huge_int)\<rparr>),
      (''tags'', \<lparr>entry_module = ''pipelines.tags'', entry_file = ''./pipelines/tags.py'',
                  entry_callable = returning (PObject ''set'')\<rparr>)]"

definition second_gateway :: "(int, unit) gateway" where
  "second_gateway = \<lparr>PIPELINES_REGISTRY = second_registry, logger = [], world = ()\<rparr>"

section \<open>Lemmas about the scan\<close>

lemma valid_unit_registration: "valid_unit u \<longleftrightarrow> registration base_dir u \<noteq> None"
  by (simp add: valid_unit_def registration_def split: load_result.splits pipe_attr.splits)

lemma valid_unit_stays: "valid_unit u \<Longrightarrow> \<not> unit_exits u"
  by (auto simp: valid_unit_def unit_exits_def split: load_result.splits)

lemma scan_unit_returns: "fst (scan_unit base_dir u st) = None \<longleftrightarrow> \<not> unit_exits u"
  by (simp add: scan_unit_def unit_exits_def Let_def split: load_result.splits pipe_attr.splits)

lemma scan_unit_exits:
  "unit_exits u \<Longrightarrow> load u = LoadRaises ex \<Longrightarrow> scan_unit base_dir u st = (Some ex, st)"
  by (simp add: scan_unit_def unit_exits_def Let_def)

lemma scan_unit_exit_state: "scan_unit base_dir u st = (Some ex, st') \<Longrightarrow> st' = st"
  by (simp add: scan_unit_def Let_def split: if_splits load_result.splits pipe_attr.splits)

lemma unit_exits_load: "unit_exits u \<Longrightarrow> \<exists>ex. load u = LoadRaises ex"
  by (auto simp: unit_exits_def split: load_result.splits)

lemma scan_unit_registry:
  "PIPELINES_REGISTRY (snd (scan_unit base_dir u st)) =
     (case registration base_dir u of
        None \<Rightarrow> PIPELINES_REGISTRY st
      | Some (k, e) \<Rightarrow> dict_setitem k e (PIPELINES_REGISTRY st))"
  by (simp add: scan_unit_def registration_def Let_def split: load_result.splits pipe_attr.splits)

lemma scan_unit_logger:
  "logger (snd (scan_unit base_dir u st)) =
     logger st @ (case skip_warning base_dir u of None \<Rightarrow> [] | Some l \<Rightarrow> [l])"
  by (simp add: scan_unit_def skip_warning_def Let_def split: load_result.splits pipe_attr.splits)

lemma scan_unit_world: "world (snd (scan_unit base_dir u st)) = world st"
  by (simp add: scan_unit_def Let_def split: load_result.splits pipe_attr.splits)

lemma scanned_Cons:
  "scanned (u # us) = (if unit_exits u then [] else u # scanned us)"
  by (simp add: scanned_def)

lemma scanned_all: "\<forall>u \<in> set units. \<not> unit_exits u \<Longrightarrow> scanned units = units"
  by (simp add: scanned_def)

lemma scanned_valid: "scanned (filter valid_unit units) = filter valid_unit units"
  by (rule scanned_all) (simp add: valid_unit_stays)

lemma scanned_before:
  "\<forall>v \<in> set before. \<not> unit_exits v \<Longrightarrow> unit_exits u \<Longrightarrow> scanned (before @ u # after) = before"
  by (simp add: scanned_def takeWhile_append2)

lemma scan_units_scanned:
  "snd (scan_units base_dir units st)
     = fold (\<lambda>u s. snd (scan_unit base_dir u s)) (scanned units) st"
proof (induction units arbitrary: st)
  case Nil
  then show ?case by (simp add: scanned_def)
next
  case (Cons u units)
  show ?case
  proof (cases "unit_exits u")
    case True
    then obtain ex where "load u = LoadRaises ex"
      using unit_exits_load by blast
    with True show ?thesis
      by (simp add: scan_unit_exits scanned_Cons)
  next
    case False
    then obtain st' where s: "scan_unit base_dir u st = (None, st')"
      using scan_unit_returns [of base_dir u st] by (cases "scan_unit base_dir u st") auto
    with False show ?thesis
      by (simp add: scanned_Cons Cons.IH)
  qed
qed

lemma scan_units_returns:
  "fst (scan_units base_dir units st) = None \<longleftrightarrow> (\<forall>u \<in> set units. \<not> unit_exits u)"
proof (induction units arbitrary: st)
  case Nil
  then show ?case by simp
next
  case (Cons u units)
  show ?case
  proof (cases "unit_exits u")
    case True
    then obtain ex where "load u = LoadRaises ex"
      using unit_exits_load by blast
    with True show ?thesis
      by (simp add: scan_unit_exits)
  next
    case False
    then obtain st' where s: "scan_unit base_dir u st = (None, st')"
      using scan_unit_returns [of base_dir u st] by (cases "scan_unit base_dir u st") auto
    with False show ?thesis
      by (simp add: Cons.IH)
  qed
qed

lemma scan_units_first_exit:
  assumes "\<forall>v \<in> set before. \<not> unit_exits v" and "unit_exits u" and "load u = LoadRaises ex"
  shows "fst (scan_units base_dir (before @ u # after) st) = Some ex"
  using assms(1)
proof (induction before arbitrary: st)
  case Nil
  then show ?case by (simp add: scan_unit_exits [OF assms(2,3)])
next
  case (Cons v before)
  then have "\<not> unit_exits v" by simp
  then obtain st' where s: "scan_unit base_dir v st = (None, st')"
    using scan_unit_returns [of base_dir v st] by (cases "scan_unit base_dir v st") auto
  with Cons show ?case by simp
qed

lemma fold_scan_registry:
  "PIPELINES_REGISTRY (fold (\<lambda>u s. snd (scan_unit base_dir u s)) units st) =
     last_write_wins (List.map_filter (registration base_dir) units) (PIPELINES_REGISTRY st)"
proof (induction units arbitrary: st)
  case Nil
  then show ?case by (simp add: last_write_wins_def List.map_filter_simps)
next
  case (Cons u units)
  show ?case
  proof (cases "registration base_dir u")
    case None
    then show ?thesis
      using Cons.IH [of "snd (scan_unit base_dir u st)"]
      by (simp add: scan_unit_registry List.map_filter_simps)
  next
    case (Some p)
    then show ?thesis
      using Cons.IH [of "snd (scan_unit base_dir u st)"]
      by (cases p) (simp add: scan_unit_registry List.map_filter_simps last_write_wins_def)
  qed
qed

lemma fold_scan_logger:
  "logger (fold (\<lambda>u s. snd (scan_unit base_dir u s)) units st) =
     logger st @ List.map_filter (skip_warning base_dir) units"
proof (induction units arbitrary: st)
  case Nil
  then show ?case by (simp add: List.map_filter_simps)
next
  case (Cons u units)
  then show ?case
    by (simp add: scan_unit_logger List.map_filter_simps split: option.splits)
qed

lemma last_write_wins_step:
  "last_write_wins ((k, v) # regs) d = last_write_wins regs (dict_setitem k v d)"
  by (simp add: last_write_wins_def)

lemma map_of_last_write_wins:
  "map_of (last_write_wins regs d) k =
     (if filter (\<lambda>p. fst p = k) regs = [] then map_of d k
      else Some (snd (last (filter (\<lambda>p. fst p = k) regs))))"
proof (induction regs arbitrary: d)
  case Nil
  then show ?case by (simp add: last_write_wins_def)
next
  case (Cons r regs)
  obtain k' v where r: "r = (k', v)" by (cases r)
  show ?case
    unfolding r last_write_wins_step Cons.IH
    by (simp add: dict_setitem_def update_conv')
qed

lemma keys_last_write_wins:
  "fst ` set (last_write_wins regs d) = fst ` set regs \<union> fst ` set d"
proof (induction regs arbitrary: d)
  case Nil
  then show ?case by (simp add: last_write_wins_def)
next
  case (Cons r regs)
  obtain k' v where r: "r = (k', v)" by (cases r)
  show ?case
    unfolding r last_write_wins_step Cons.IH by (auto simp: dict_setitem_def dom_update)
qed

lemma distinct_last_write_wins:
  "distinct (map fst d) \<Longrightarrow> distinct (map fst (last_write_wins regs d))"
proof (induction regs arbitrary: d)
  case Nil
  then show ?case by (simp add: last_write_wins_def)
next
  case (Cons r regs)
  obtain k' v where r: "r = (k', v)" by (cases r)
  show ?case
    unfolding r last_write_wins_step using Cons.prems
    by (intro Cons.IH) (simp add: dict_setitem_def distinct_update)
qed

lemma scan_states_prefixes:
  "scan_states base_dir units st =
     map (\<lambda>k. fold (\<lambda>u s. snd (scan_unit base_dir u s)) (take (Suc k) (scanned units)) st)
       [0..<length (scanned units)]"
proof (induction units arbitrary: st)
  case Nil
  then show ?case by (simp add: scanned_def)
next
  case (Cons u units)
  show ?case
  proof (cases "unit_exits u")
    case True
    then obtain ex where "load u = LoadRaises ex"
      using unit_exits_load by blast
    with True show ?thesis
      by (simp add: scan_unit_exits scanned_Cons)
  next
    case False
    then obtain st' where s: "scan_unit base_dir u st = (None, st')"
      using scan_unit_returns [of base_dir u st] by (cases "scan_unit base_dir u st") auto
    have "[0..<length (u # scanned units)] = 0 # map Suc [0..<length (scanned units)]"
      by (simp add: upt_conv_Cons map_Suc_upt del: upt_Suc)
    with False s show ?thesis
      by (simp add: scanned_Cons Cons.IH comp_def del: upt_Suc)
  qed
qed

lemma last_scan_states:
  "last (st # scan_states base_dir units st) = snd (scan_units base_dir units st)"
proof (induction units arbitrary: st)
  case Nil
  then show ?case by simp
next
  case (Cons u units)
  show ?case
  proof (cases "scan_unit base_dir u st")
    case (Pair r st')
    show ?thesis
    proof (cases r)
      case None
      with Pair show ?thesis using Cons.IH [of st'] by simp
    next
      case (Some ex)
      with Pair have "st' = st" by (simp add: scan_unit_exit_state)
      with Pair Some show ?thesis by simp
    qed
  qed
qed

lemma discover_listing:
  assumes "base_dir \<noteq> []" and "fs base_dir = Listing units"
  shows "discover_pipelines fs base_dir st
           = scan_units base_dir units (st\<lparr>PIPELINES_REGISTRY := []\<rparr>)"
  using assms by (simp add: discover_pipelines_def)

lemma discover_registry_listing:
  assumes "base_dir \<noteq> []" and "fs base_dir = Listing units"
  shows "PIPELINES_REGISTRY (snd (discover_pipelines fs base_dir st))
           = last_write_wins (List.map_filter (registration base_dir) (scanned units)) []"
  using assms by (simp add: discover_listing scan_units_scanned fold_scan_registry)

lemma discover_registry_independent:
  "PIPELINES_REGISTRY (snd (discover_pipelines fs base_dir st0))
     = PIPELINES_REGISTRY (snd (discover_pipelines fs base_dir st1))"
  by (simp add: discover_pipelines_def Let_def scan_units_scanned fold_scan_registry
      split: path_state.splits)

lemma discover_distinct:
  "distinct (map fst (PIPELINES_REGISTRY (snd (discover_pipelines fs base_dir st))))"
  by (simp add: discover_pipelines_def Let_def scan_units_scanned fold_scan_registry
      distinct_last_write_wins split: path_state.splits)

lemma last_discover_states:
  "last (discover_states fs base_dir st0) = snd (discover_pipelines fs base_dir st0)"
proof (cases "base_dir = []")
  case True
  then show ?thesis by (simp add: discover_states_def discover_pipelines_def Let_def)
next
  case False
  show ?thesis
  proof (cases "fs base_dir")
    case NotADirectory
    with False show ?thesis by (simp add: discover_states_def discover_pipelines_def Let_def)
  next
    case (ListdirRaises e)
    with False show ?thesis by (simp add: discover_states_def discover_pipelines_def Let_def)
  next
    case (Listing units)
    have "last (st0 # st0\<lparr>PIPELINES_REGISTRY := []\<rparr>
                 # scan_states base_dir units (st0\<lparr>PIPELINES_REGISTRY := []\<rparr>))
            = last (st0\<lparr>PIPELINES_REGISTRY := []\<rparr>
                 # scan_states base_dir units (st0\<lparr>PIPELINES_REGISTRY := []\<rparr>))"
      by simp
    also have "\<dots> = snd (scan_units base_dir units (st0\<lparr>PIPELINES_REGISTRY := []\<rparr>))"
      by (rule last_scan_states)
    finally show ?thesis
      using False Listing
      by (simp add: discover_states_def discover_pipelines_def Let_def del: last.simps)
  qed
qed

lemma map_filter_valid:
  "List.map_filter (registration base_dir) (filter valid_unit units)
     = List.map_filter (registration base_dir) units"
  by (induction units) (auto simp: List.map_filter_simps valid_unit_registration [of _ base_dir]
      split: option.splits)

lemma fs_upd_listing:
  "base_dir \<noteq> [] \<Longrightarrow>
   PIPELINES_REGISTRY (snd (discover_pipelines (fs(base_dir := Listing units)) base_dir st))
     = last_write_wins (List.map_filter (registration base_dir) (scanned units)) []"
  by (rule discover_registry_listing) simp_all

lemma map_filter_append:
  "List.map_filter f (xs @ ys) = List.map_filter f xs @ List.map_filter f ys"
  by (simp add: List.map_filter_def)

lemma lookup_not_overwritten:
  assumes "units = before @ u # after"
    and "registration base_dir u = Some (k, e)"
    and "\<forall>v \<in> set after. \<forall>e'. registration base_dir v \<noteq> Some (k, e')"
  shows "map_of (last_write_wins (List.map_filter (registration base_dir) units) d) k = Some e"
proof -
  have none_after: "filter (\<lambda>p. fst p = k) (List.map_filter (registration base_dir) after) = []"
    using assms(3)
    by (auto simp: List.map_filter_def filter_empty_conv)
  have split: "List.map_filter (registration base_dir) units
                 = List.map_filter (registration base_dir) before @ (k, e)
                     # List.map_filter (registration base_dir) after"
    using assms(1,2) by (simp add: map_filter_append List.map_filter_simps)
  have "filter (\<lambda>p. fst p = k) (List.map_filter (registration base_dir) units)
          = filter (\<lambda>p. fst p = k) (List.map_filter (registration base_dir) before) @ [(k, e)]"
    by (simp add: split none_after)
  then show ?thesis
    by (simp add: map_of_last_write_wins)
qed

section \<open>Lemmas about the routes\<close>

lemma logger_irrelevant_GET:
  "fst (GET_pipelines secret request (st\<lparr>logger := l\<rparr>)) = fst (GET_pipelines secret request st)"
  by (simp add: GET_pipelines_def pipelines_list_def split: sum.splits)

lemma world_irrelevant_GET:
  "fst (GET_pipelines secret request (st\<lparr>world := w\<rparr>)) = fst (GET_pipelines secret request st)"
  by (simp add: GET_pipelines_def pipelines_list_def split: sum.splits)

lemma logger_irrelevant_POST:
  "fst (POST_pipelines secret request name payload (st\<lparr>logger := l\<rparr>))
     = fst (POST_pipelines secret request name payload st)"
  by (simp add: POST_pipelines_def pipelines_call_def
      split: sum.splits option.splits prod.splits)






section \<open>Lemmas about the summing handler\<close>




















section \<open>The model on the example inputs\<close>

lemma authorized_ok: "api_dependency ''s3cret'' authorized = Inr (APIKeyHeader ''s3cret'')"
  by (simp add: api_dependency_def authorized_def headers_get_def)


lemma math_add_mixed:
  "math_add_pipe small_floats
     (Some [(''values'', PList [PBool True, PInt 2, PFloat (Finite 3), PBool True, PInt 4])])
     = Inr (PDict [(''sum'', PFloat (Finite 11))])"
  by (simp add: math_add_pipe_def is_number_def py_sum_def py_add_def py_float_def
      small_floats_def)





lemma example_lookup_broken:
  "map_of (PIPELINES_REGISTRY example_gateway) ''broken''
     = Some \<lparr>entry_module = ''pipelines.broken'', entry_file = ''./pipelines/broken.py'',
             entry_callable = raising (PyExc ''ValueError'' ''boom'')\<rparr>"
  by (simp add: example_gateway_def example_registry_def)

lemma second_lookup_quits:
  "map_of (PIPELINES_REGISTRY second_gateway) ''quits''
     = Some \<lparr>entry_module = ''pipelines.quits'', entry_file = ''./pipelines/quits.py'',
             entry_callable = raising (PyExit ''SystemExit'' ''3'')\<rparr>"
  by (simp add: second_gateway_def second_registry_def)




lemma example_keys:
  "map fst (PIPELINES_REGISTRY example_gateway) = [''math_add'', ''answer'', ''broken'']"
  by (simp add: example_gateway_def example_registry_def)

lemma example_fs_listing: "example_fs ''./pipelines'' = Listing example_units"
  by (simp add: example_fs_def)

lemma exit_fs_listing: "exit_fs ''./pipelines'' = Listing exit_units"
  by (simp add: exit_fs_def)

lemma pipelines_dir_nonempty: "''./pipelines'' \<noteq> []"
  by simp

lemma example_units_stay: "\<forall>u \<in> set example_units. \<not> unit_exits u"
  by (simp add: example_units_def echo_unit_def unit_exits_def math_add_unit_def)

lemma example_scan_keys:
  "map (map fst \<circ> PIPELINES_REGISTRY) (discover_states example_fs ''./pipelines'' stale_gateway)
     = [[''old''], [], [], [], [''time_unix''], [''time_unix''], [''time_unix'', ''math_add''],
        [''time_unix'', ''math_add''], [''time_unix'', ''math_add'']]"
  by (simp add: discover_states_def example_fs_def example_units_def echo_unit_def stale_gateway_def
        scan_unit_def endswith_def math_add_unit_def derive_pid_def py_or_def py_str_def truthy_def
        dict_setitem_def Let_def)

lemma example_scan_result:
  "map fst (PIPELINES_REGISTRY (snd (discover_pipelines example_fs ''./pipelines'' stale_gateway)))
     = [''time_unix'', ''math_add'']
   \<and> map (entry_file \<circ> snd)
       (PIPELINES_REGISTRY (snd (discover_pipelines example_fs ''./pipelines'' stale_gateway)))
     = [''./pipelines/time_unix.py'', ''./pipelines/math_add.py'']
   \<and> logger (snd (discover_pipelines example_fs ''./pipelines'' stale_gateway))
     = [LogWarning ''Skipping pipeline ./pipelines/broken.py due to load error: invalid syntax'']"
  by (simp add: discover_pipelines_def example_fs_def example_units_def echo_unit_def stale_gateway_def
        scan_unit_def endswith_def math_add_unit_def derive_pid_def py_or_def py_str_def truthy_def
        dict_setitem_def Let_def os_path_join_def)

lemma example_scan_time_unix:
  "map_option entry_file
     (map_of (PIPELINES_REGISTRY (snd (discover_pipelines example_fs ''./pipelines'' stale_gateway)))
        ''time_unix'') = Some ''./pipelines/time_unix.py''"
  by (simp add: discover_pipelines_def example_fs_def example_units_def echo_unit_def stale_gateway_def
        scan_unit_def endswith_def math_add_unit_def derive_pid_def py_or_def py_str_def truthy_def
        dict_setitem_def Let_def os_path_join_def)

lemma exit_scan_result:
  "fst (discover_pipelines exit_fs ''./pipelines'' empty_gateway) = Some (PyExit ''SystemExit'' ''1'')
   \<and> map fst (PIPELINES_REGISTRY (snd (discover_pipelines exit_fs ''./pipelines'' empty_gateway)))
       = [''first'']
   \<and> logger (snd (discover_pipelines exit_fs ''./pipelines'' empty_gateway)) = []"
  by (simp add: discover_pipelines_def exit_fs_def exit_units_def first_unit_def quits_unit_def
        last_unit_def empty_gateway_def
        scan_unit_def endswith_def derive_pid_def py_or_def py_str_def truthy_def
        dict_setitem_def Let_def os_path_join_def)

lemma exit_units_facts:
  "valid_unit last_unit \<and> last_unit \<in> set exit_units
   \<and> registration ''./pipelines'' last_unit
       = Some (''last'', \<lparr>entry_module = ''pipelines.last'', entry_file = ''./pipelines/last.py'',
                           entry_callable = returning PNone\<rparr>)"
  by (simp add: exit_units_def last_unit_def valid_unit_def registration_def endswith_def
      derive_pid_def py_or_def py_str_def truthy_def os_path_join_def drop_last3_def)

lemma exit_units_split:
  "exit_units = [first_unit] @ quits_unit # [last_unit]
   \<and> (\<forall>v \<in> set [first_unit]. \<not> unit_exits v)
   \<and> unit_exits quits_unit
   \<and> load quits_unit = LoadRaises (PyExit ''SystemExit'' ''1'')"
  by (simp add: exit_units_def first_unit_def quits_unit_def unit_exits_def endswith_def)

lemma echo_unit_facts:
  "valid_unit echo_unit \<and> echo_unit \<in> set example_units
   \<and> map_option (\<lambda>(k, e). (k, entry_file e)) (registration ''./pipelines'' echo_unit)
       = Some (''time_unix'', ''./pipelines/echo.py'')"
  by (simp add: example_units_def echo_unit_def valid_unit_def registration_def endswith_def
      derive_pid_def py_or_def py_str_def truthy_def os_path_join_def drop_last3_def)

section \<open>Properties of the credential checks\<close>

text \<open>
  C1. On both guarded paths a request is accepted exactly when its \<^verbatim>\<open>x-api-key\<close> header
  is present, equals the configured secret, and the secret is not empty; with an empty
  secret every request is rejected; and every rejection, whether the header is missing or
  wrong, is the same \<^verbatim>\<open>401 Unauthorized\<close>. For \<^verbatim>\<open>api_dependency\<close> the configured secret
  is the module constant, for \<^verbatim>\<open>require_api_key\<close> it is the value of the environment
  variable (an unset variable reads as the empty secret). On the two pipeline routes a
  rejected request gets that exception and leaves the gateway as it was; an accepted one
  reaches the endpoint.
\<close>

theorem credential_check_exact:
  "api_dependency secret request =
     (if headers_get request ''x-api-key'' = Some secret \<and> secret \<noteq> []
      then Inr (APIKeyHeader secret)
      else Inl (HTTPException 401 ''Unauthorized''))
   \<and> require_api_key env request =
     (if headers_get request ''x-api-key'' = Some (os_getenv env API_KEY_ENV '''')
         \<and> os_getenv env API_KEY_ENV '''' \<noteq> []
      then Inr ()
      else Inl (HTTPException 401 ''Unauthorized''))
   \<and> api_dependency [] request = Inl (HTTPException 401 ''Unauthorized'')
   \<and> (os_getenv env API_KEY_ENV '''' = [] \<longrightarrow>
        require_api_key env request = Inl (HTTPException 401 ''Unauthorized''))
   \<and> (headers_get request ''x-api-key'' = None \<longrightarrow>
        api_dependency secret request = Inl (HTTPException 401 ''Unauthorized'')
        \<and> require_api_key env request = Inl (HTTPException 401 ''Unauthorized''))
   \<and> (\<forall>wrong. headers_get request ''x-api-key'' = Some wrong \<and> wrong \<noteq> secret \<longrightarrow>
        api_dependency secret request = Inl (HTTPException 401 ''Unauthorized''))
   \<and> (\<forall>wrong. headers_get request ''x-api-key'' = Some wrong
          \<and> wrong \<noteq> os_getenv env API_KEY_ENV '''' \<longrightarrow>
        require_api_key env request = Inl (HTTPException 401 ''Unauthorized''))
   \<and> (\<not> (headers_get request ''x-api-key'' = Some secret \<and> secret \<noteq> []) \<longrightarrow>
        GET_pipelines secret request st = (Inl (HTTPException 401 ''Unauthorized''), st)
        \<and> POST_pipelines secret request name payload st
            = (Inl (HTTPException 401 ''Unauthorized''), st))
   \<and> (headers_get request ''x-api-key'' = Some secret \<and> secret \<noteq> [] \<longrightarrow>
        GET_pipelines secret request st = (Inr (JSONResponse 200 (fst (pipelines_list st))), st)
        \<and> POST_pipelines secret request name payload st = pipelines_call name payload st)"
  by (auto simp: api_dependency_def require_api_key_def GET_pipelines_def POST_pipelines_def
      pipelines_list_def Let_def split: option.splits)

theorem credential_check_exact_witness:
  "os_getenv (Map.empty(''API_KEY'' \<mapsto> '''')) API_KEY_ENV '''' = []
   \<and> require_api_key (Map.empty(''API_KEY'' \<mapsto> ''''))
        \<lparr>headers = [(''x-api-key'', ''guess'')]\<rparr> = Inl (HTTPException 401 ''Unauthorized'')
   \<and> headers_get \<lparr>headers = [(''x-api-key'', ''guess'')]\<rparr> ''x-api-key'' = Some ''guess''
   \<and> ''guess'' \<noteq> ''s3cret''
   \<and> api_dependency ''s3cret'' \<lparr>headers = [(''x-api-key'', ''guess'')]\<rparr>
        = Inl (HTTPException 401 ''Unauthorized'')
   \<and> POST_pipelines ''s3cret'' \<lparr>headers = [(''x-api-key'', ''guess'')]\<rparr> ''math_add'' None
        example_gateway = (Inl (HTTPException 401 ''Unauthorized''), example_gateway)
   \<and> headers_get \<lparr>headers = [(''accept'', ''*/*'')]\<rparr> ''x-api-key'' = None
   \<and> api_dependency ''s3cret'' \<lparr>headers = [(''accept'', ''*/*'')]\<rparr>
        = Inl (HTTPException 401 ''Unauthorized'')
   \<and> api_dependency ''s3cret'' \<lparr>headers = [(''x-api-key'', ''s3cret'')]\<rparr>
        = Inr (APIKeyHeader ''s3cret'')
   \<and> POST_pipelines ''s3cret'' \<lparr>headers = [(''x-api-key'', ''s3cret'')]\<rparr> ''math_add'' None
        example_gateway = pipelines_call ''math_add'' None example_gateway"
  using credential_check_exact
          [where secret = "''s3cret''" and request = "\<lparr>headers = [(''x-api-key'', ''guess'')]\<rparr>"
             and env = "Map.empty(''API_KEY'' \<mapsto> '''')" and st = example_gateway
             and name = "''math_add''" and payload = None]
        credential_check_exact
          [where secret = "''s3cret''" and request = "\<lparr>headers = [(''accept'', ''*/*'')]\<rparr>"
             and env = Map.empty and st = example_gateway
             and name = "''math_add''" and payload = None]
        credential_check_exact
          [where secret = "''s3cret''" and request = "\<lparr>headers = [(''x-api-key'', ''s3cret'')]\<rparr>"
             and env = Map.empty and st = example_gateway
             and name = "''math_add''" and payload = None]
  by (simp add: headers_get_def os_getenv_def API_KEY_ENV_def)

text \<open>
  C10. With \<^verbatim>\<open>API_KEY\<close> unset when \<^verbatim>\<open>main.py\<close> is loaded, the module constant is the
  placeholder \<^verbatim>\<open>"changeme"\<close> and \<^verbatim>\<open>api_dependency\<close> accepts exactly the requests whose
  header is \<^verbatim>\<open>"changeme"\<close>; \<^verbatim>\<open>require_api_key\<close>, which reads the environment at each
  request, rejects every request when the variable is unset or empty.
\<close>

theorem unset_key_placeholder:
  "(env ''API_KEY'' = None \<longrightarrow>
      API_KEY env = ''changeme''
      \<and> api_dependency (API_KEY env) request =
          (if headers_get request ''x-api-key'' = Some ''changeme''
           then Inr (APIKeyHeader ''changeme'')
           else Inl (HTTPException 401 ''Unauthorized'')))
   \<and> (env ''API_KEY'' = None \<or> env ''API_KEY'' = Some [] \<longrightarrow>
      require_api_key env request = Inl (HTTPException 401 ''Unauthorized''))"
  by (auto simp: API_KEY_def api_dependency_def require_api_key_def API_KEY_ENV_def
      os_getenv_def Let_def split: option.splits)

theorem unset_key_placeholder_witness:
  "(Map.empty :: environ) ''API_KEY'' = None
   \<and> API_KEY Map.empty = ''changeme''
   \<and> api_dependency (API_KEY Map.empty) \<lparr>headers = [(''x-api-key'', ''changeme'')]\<rparr>
        = Inr (APIKeyHeader ''changeme'')
   \<and> require_api_key Map.empty \<lparr>headers = [(''x-api-key'', ''changeme'')]\<rparr>
        = Inl (HTTPException 401 ''Unauthorized'')"
  using unset_key_placeholder [of Map.empty "\<lparr>headers = [(''x-api-key'', ''changeme'')]\<rparr>"]
  by (auto simp: headers_get_def)

section \<open>Properties of dispatch\<close>





text \<open>
  C3, as the code has it. An authorized \<^verbatim>\<open>POST /pipelines/{id}\<close> whose id is registered
  and whose handler raises \<open>ex\<close>. When \<open>ex\<close> is an instance of \<^verbatim>\<open>Exception\<close>, it is
  caught and the request ends in \<^verbatim>\<open>HTTPException(500)\<close> whose detail is \<^verbatim>\<open>str(ex)\<close>; the
  gateway goes on with the same registry: the state after differs from the state before
  only in the line added to the log and in what the handler did to the world; every later
  listing is answered as before, and every later dispatch as it would be answered from
  the state before with the world the handler left (so exactly as before when the handler
  left the world alone). When \<open>ex\<close> is not an instance of \<^verbatim>\<open>Exception\<close>, as
  \<^verbatim>\<open>SystemExit\<close> and \<^verbatim>\<open>KeyboardInterrupt\<close> are not, the clause does not catch it:
  nothing is logged, no \<^verbatim>\<open>HTTPException\<close> is raised and \<open>ex\<close> leaves the endpoint.
\<close>

theorem handler_fault_is_500:
  assumes "api_dependency secret request = Inr dep"
    and "map_of (PIPELINES_REGISTRY st) name = Some e"
    and "entry_callable e (case payload of None \<Rightarrow> [] | Some p \<Rightarrow> p) (world st) = (Raises ex, w)"
  shows "(is_Exception ex \<longrightarrow>
         fst (POST_pipelines secret request name payload st)
           = Inl (HTTPException 500 (exc_str ex))
       \<and> snd (POST_pipelines secret request name payload st)
           = st\<lparr>world := w,
                logger := logger st @
                  [LogException (''Pipeline '' @ [CHR 0x27] @ name @ [CHR 0x27]
                                 @ '' execution error: '' @ exc_str ex)]\<rparr>
       \<and> PIPELINES_REGISTRY (snd (POST_pipelines secret request name payload st))
           = PIPELINES_REGISTRY st
       \<and> fst (GET_pipelines secret' request' (snd (POST_pipelines secret request name payload st)))
           = fst (GET_pipelines secret' request' st)
       \<and> fst (POST_pipelines secret' request' name' payload'
                (snd (POST_pipelines secret request name payload st)))
           = fst (POST_pipelines secret' request' name' payload' (st\<lparr>world := w\<rparr>))
       \<and> (w = world st \<longrightarrow>
            fst (POST_pipelines secret' request' name' payload'
                  (snd (POST_pipelines secret request name payload st)))
              = fst (POST_pipelines secret' request' name' payload' st)))
     \<and> (\<not> is_Exception ex \<longrightarrow>
         POST_pipelines secret request name payload st = (Inl (Uncaught ex), st\<lparr>world := w\<rparr>))"
proof -
  have exit: "\<not> is_Exception ex \<longrightarrow>
         POST_pipelines secret request name payload st = (Inl (Uncaught ex), st\<lparr>world := w\<rparr>)"
    using assms by (simp add: POST_pipelines_def pipelines_call_def call_body_def)
  have caught: "fst (POST_pipelines secret request name payload st)
           = Inl (HTTPException 500 (exc_str ex))
       \<and> snd (POST_pipelines secret request name payload st)
           = st\<lparr>world := w,
                logger := logger st @
                  [LogException (''Pipeline '' @ [CHR 0x27] @ name @ [CHR 0x27]
                                 @ '' execution error: '' @ exc_str ex)]\<rparr>
       \<and> PIPELINES_REGISTRY (snd (POST_pipelines secret request name payload st))
           = PIPELINES_REGISTRY st
       \<and> fst (GET_pipelines secret' request' (snd (POST_pipelines secret request name payload st)))
           = fst (GET_pipelines secret' request' st)
       \<and> fst (POST_pipelines secret' request' name' payload'
                (snd (POST_pipelines secret request name payload st)))
           = fst (POST_pipelines secret' request' name' payload' (st\<lparr>world := w\<rparr>))
       \<and> (w = world st \<longrightarrow>
            fst (POST_pipelines secret' request' name' payload'
                  (snd (POST_pipelines secret request name payload st)))
              = fst (POST_pipelines secret' request' name' payload' st))"
    if ex: "is_Exception ex"
  proof -
    have after: "snd (POST_pipelines secret request name payload st)
             = st\<lparr>world := w,
                  logger := logger st @
                    [LogException (''Pipeline '' @ [CHR 0x27] @ name @ [CHR 0x27]
                                   @ '' execution error: '' @ exc_str ex)]\<rparr>"
      using assms ex by (simp add: POST_pipelines_def pipelines_call_def call_body_def)
    have resp: "fst (POST_pipelines secret request name payload st)
                  = Inl (HTTPException 500 (exc_str ex))"
      using assms ex by (simp add: POST_pipelines_def pipelines_call_def call_body_def)
    have reg: "PIPELINES_REGISTRY (snd (POST_pipelines secret request name payload st))
             = PIPELINES_REGISTRY st"
      by (simp add: after)
    have g: "fst (GET_pipelines secret' request' (snd (POST_pipelines secret request name payload st)))
             = fst (GET_pipelines secret' request' st)"
      unfolding after using logger_irrelevant_GET world_irrelevant_GET by metis
    have p: "fst (POST_pipelines secret' request' name' payload'
                  (snd (POST_pipelines secret request name payload st)))
             = fst (POST_pipelines secret' request' name' payload' (st\<lparr>world := w\<rparr>))"
      unfolding after using logger_irrelevant_POST by metis
    have q: "w = world st \<longrightarrow>
              fst (POST_pipelines secret' request' name' payload'
                    (snd (POST_pipelines secret request name payload st)))
                = fst (POST_pipelines secret' request' name' payload' st)"
      using p by auto
    from resp after reg g p q show ?thesis by blast
  qed
  with exit show ?thesis by blast
qed

theorem handler_fault_is_500_witness:
  "fst (POST_pipelines ''s3cret'' authorized ''broken'' None example_gateway)
     = Inl (HTTPException 500 ''boom'')
   \<and> PIPELINES_REGISTRY (snd (POST_pipelines ''s3cret'' authorized ''broken'' None example_gateway))
     = PIPELINES_REGISTRY example_gateway
   \<and> fst (POST_pipelines ''s3cret'' authorized ''math_add''
            (Some [(''values'', PList [PInt 1, PInt 2, PInt 3])])
            (snd (POST_pipelines ''s3cret'' authorized ''broken'' None example_gateway)))
     = fst (POST_pipelines ''s3cret'' authorized ''math_add''
            (Some [(''values'', PList [PInt 1, PInt 2, PInt 3])]) example_gateway)
   \<and> POST_pipelines ''s3cret'' authorized ''quits'' None second_gateway
     = (Inl (Uncaught (PyExit ''SystemExit'' ''3'')), second_gateway)"
proof -
  have c: "entry_callable
             \<lparr>entry_module = ''pipelines.broken'', entry_file = ''./pipelines/broken.py'',
              entry_callable = raising (PyExc ''ValueError'' ''boom'')\<rparr>
             (case None of None \<Rightarrow> [] | Some p \<Rightarrow> p)
             (world example_gateway) = (Raises (PyExc ''ValueError'' ''boom''), ())"
    by (simp add: raising_def)
  have q: "entry_callable
             \<lparr>entry_module = ''pipelines.quits'', entry_file = ''./pipelines/quits.py'',
              entry_callable = raising (PyExit ''SystemExit'' ''3'')\<rparr>
             (case None of None \<Rightarrow> [] | Some p \<Rightarrow> p)
             (world second_gateway) = (Raises (PyExit ''SystemExit'' ''3''), ())"
    by (simp add: raising_def)
  have w: "() = world example_gateway"
    by simp
  have e1: "is_Exception (PyExc ''ValueError'' ''boom'')"
    by simp
  have e2: "\<not> is_Exception (PyExit ''SystemExit'' ''3'')"
    by simp
  have unit_state: "second_gateway\<lparr>world := ()\<rparr> = second_gateway"
    by simp
  note t = handler_fault_is_500 [OF authorized_ok example_lookup_broken c,
        of "''s3cret''" authorized "''math_add''"
           "Some [(''values'', PList [PInt 1, PInt 2, PInt 3])]"]
  from t e1 have "fst (POST_pipelines ''s3cret'' authorized ''broken'' None example_gateway)
                 = Inl (HTTPException 500 (exc_str (PyExc ''ValueError'' ''boom'')))"
    by blast
  then have r: "fst (POST_pipelines ''s3cret'' authorized ''broken'' None example_gateway)
                 = Inl (HTTPException 500 ''boom'')"
    by simp
  from handler_fault_is_500 [OF authorized_ok second_lookup_quits q] e2
  have x: "POST_pipelines ''s3cret'' authorized ''quits'' None second_gateway
     = (Inl (Uncaught (PyExit ''SystemExit'' ''3'')), second_gateway)"
    by (simp only: unit_state) (blast?)
  from t w r e1 x show ?thesis
    by blast
qed

text \<open>
  The claim as the specification states it promises a 500 for any exception. A handler
  that calls \<^verbatim>\<open>sys.exit(3)\<close> raises \<^verbatim>\<open>SystemExit\<close>: there is no 500, nothing is logged,
  and the exception leaves the endpoint.
\<close>

theorem handler_exit_counterexample:
  "entry_callable
     \<lparr>entry_module = ''pipelines.quits'', entry_file = ''./pipelines/quits.py'',
      entry_callable = raising (PyExit ''SystemExit'' ''3'')\<rparr> [] ()
     = (Raises (PyExit ''SystemExit'' ''3''), ())
   \<and> map_of (PIPELINES_REGISTRY second_gateway) ''quits''
     = Some \<lparr>entry_module = ''pipelines.quits'', entry_file = ''./pipelines/quits.py'',
             entry_callable = raising (PyExit ''SystemExit'' ''3'')\<rparr>
   \<and> POST_pipelines ''s3cret'' authorized ''quits'' None second_gateway
     = (Inl (Uncaught (PyExit ''SystemExit'' ''3'')), second_gateway)
   \<and> fst (POST_pipelines ''s3cret'' authorized ''quits'' None second_gateway)
     \<noteq> Inl (HTTPException 500 ''3'')"
  by (simp add: POST_pipelines_def pipelines_call_def authorized_ok second_lookup_quits
      raising_def call_body_def)

text \<open>
  C4. An authorized \<^verbatim>\<open>POST /pipelines/{id}\<close> whose id is not a key of the registry ends
  in \<^verbatim>\<open>HTTPException(404)\<close> whose detail names the id, and the whole state (registry, log
  and the world the handlers act on) is as before: no handler ran.
\<close>

theorem unknown_id_is_404:
  assumes "api_dependency secret request = Inr dep"
    and "name \<notin> fst ` set (PIPELINES_REGISTRY st)"
  shows "POST_pipelines secret request name payload st
           = (Inl (HTTPException 404
                     (''pipeline '' @ [CHR 0x27] @ name @ [CHR 0x27] @ '' not found'')), st)"
proof -
  have "map_of (PIPELINES_REGISTRY st) name = None"
    using assms(2) by (simp add: map_of_eq_None_iff)
  then show ?thesis
    using assms(1) by (simp add: POST_pipelines_def pipelines_call_def)
qed

theorem unknown_id_is_404_witness:
  "POST_pipelines ''s3cret'' authorized ''nope'' (Some [(''values'', PList [])]) example_gateway
     = (Inl (HTTPException 404 (''pipeline '' @ [CHR 0x27] @ ''nope'' @ [CHR 0x27]
                                 @ '' not found'')), example_gateway)"
proof -
  have "''nope'' \<notin> fst ` set (PIPELINES_REGISTRY example_gateway)"
    by (simp add: example_gateway_def example_registry_def)
  from unknown_id_is_404 [OF authorized_ok this] show ?thesis .
qed

text \<open>
  C8. For a registry with distinct keys (every \<^verbatim>\<open>dict\<close> is one, and so is every registry
  a scan leaves behind), an authorized \<^verbatim>\<open>GET /pipelines\<close> answers with status 200 and the
  body \<^verbatim>\<open>{"pipelines": ids}\<close>, where \<open>ids\<close> is sorted ascending, has no duplicates and
  holds exactly the registered ids; the state is unchanged.
\<close>

theorem listing_sorted_ids:
  assumes "api_dependency secret request = Inr dep"
    and "distinct (map fst (PIPELINES_REGISTRY st))"
  shows "GET_pipelines secret request st
           = (Inr (JSONResponse 200
                (PDict [(''pipelines'',
                   PList (map PStr (sort (map fst (PIPELINES_REGISTRY st)))))])), st)
       \<and> sorted (sort (map fst (PIPELINES_REGISTRY st)))
       \<and> distinct (sort (map fst (PIPELINES_REGISTRY st)))
       \<and> set (sort (map fst (PIPELINES_REGISTRY st))) = fst ` set (PIPELINES_REGISTRY st)
       \<and> sort (map fst (PIPELINES_REGISTRY st))
           = sorted_list_of_set (fst ` set (PIPELINES_REGISTRY st))"
proof -
  have "sort (map fst (PIPELINES_REGISTRY st))
          = sorted_list_of_set (fst ` set (PIPELINES_REGISTRY st))"
    using assms(2) by (metis list.set_map sorted_list_of_set_sort_remdups distinct_remdups_id)
  moreover have "distinct (sort (map fst (PIPELINES_REGISTRY st)))"
    using assms(2) by simp
  ultimately show ?thesis
    using assms(1) by (simp add: GET_pipelines_def pipelines_list_def)
qed

theorem listing_sorted_ids_witness:
  "GET_pipelines ''s3cret'' authorized example_gateway
     = (Inr (JSONResponse 200
          (PDict [(''pipelines'', PList [PStr ''answer'', PStr ''broken'', PStr ''math_add''])])),
        example_gateway)"
proof -
  have d: "distinct (map fst (PIPELINES_REGISTRY example_gateway))"
    by (simp add: example_keys)
  have s: "sort (map fst (PIPELINES_REGISTRY example_gateway))
             = [''answer'', ''broken'', ''math_add'']"
    unfolding example_keys by code_simp
  from listing_sorted_ids [OF authorized_ok d] show ?thesis
    by (simp add: s)
qed

section \<open>Properties of the scan\<close>

text \<open>
  C5, as the code has it. The scan replaces the registry completely but in place, not
  atomically: the call first empties the registry and then registers the valid units one
  at a time. For a directory that can be listed, the registries the gateway passes through
  are the one of before the call, the empty one, and after each unit the last-write-wins
  registry of the units enumerated so far. The last of these states is the state the call
  ends in; its registry is the last-write-wins registry of the units scanned and does not
  depend on what the registry held before the call. The units scanned are the whole
  listing whenever the call returns; a call that a unit's exit ends has scanned the units
  before that one.
\<close>

theorem scan_replaces_in_place:
  assumes "base_dir \<noteq> []" and "fs base_dir = Listing units"
  shows "map PIPELINES_REGISTRY (discover_states fs base_dir st0)
           = PIPELINES_REGISTRY st0 # [] #
             map (\<lambda>k. last_write_wins
                         (List.map_filter (registration base_dir) (take (Suc k) (scanned units)))
                         [])
                 [0..<length (scanned units)]
       \<and> last (discover_states fs base_dir st0) = snd (discover_pipelines fs base_dir st0)
       \<and> PIPELINES_REGISTRY (snd (discover_pipelines fs base_dir st0))
           = last_write_wins (List.map_filter (registration base_dir) (scanned units)) []
       \<and> PIPELINES_REGISTRY (snd (discover_pipelines fs base_dir st0))
           = PIPELINES_REGISTRY (snd (discover_pipelines fs base_dir st1))
       \<and> (fst (discover_pipelines fs base_dir st0) = None \<longrightarrow> scanned units = units)"
proof -
  have "map PIPELINES_REGISTRY (discover_states fs base_dir st0)
           = PIPELINES_REGISTRY st0 # [] #
             map (\<lambda>k. last_write_wins
                         (List.map_filter (registration base_dir) (take (Suc k) (scanned units)))
                         [])
                 [0..<length (scanned units)]"
    using assms
    by (simp add: discover_states_def scan_states_prefixes fold_scan_registry comp_def Let_def
        del: upt_Suc)
  moreover have "PIPELINES_REGISTRY (snd (discover_pipelines fs base_dir st0))
           = last_write_wins (List.map_filter (registration base_dir) (scanned units)) []"
    using assms by (rule discover_registry_listing)
  moreover have "fst (discover_pipelines fs base_dir st0) = None \<longrightarrow> scanned units = units"
    using assms by (simp add: discover_listing scan_units_returns scanned_all)
  ultimately show ?thesis
    using last_discover_states [of fs base_dir st0]
      discover_registry_independent [of fs base_dir st0 st1]
    by blast
qed

theorem scan_replaces_in_place_witness:
  "map (map fst \<circ> PIPELINES_REGISTRY) (discover_states example_fs ''./pipelines'' stale_gateway)
     = [[''old''], [], [], [], [''time_unix''], [''time_unix''], [''time_unix'', ''math_add''],
        [''time_unix'', ''math_add''], [''time_unix'', ''math_add'']]
   \<and> last (discover_states example_fs ''./pipelines'' stale_gateway)
     = snd (discover_pipelines example_fs ''./pipelines'' stale_gateway)
   \<and> PIPELINES_REGISTRY (snd (discover_pipelines example_fs ''./pipelines'' stale_gateway))
     = PIPELINES_REGISTRY (snd (discover_pipelines example_fs ''./pipelines'' empty_gateway))"
  using scan_replaces_in_place [of "''./pipelines''" example_fs example_units stale_gateway
          empty_gateway]
    pipelines_dir_nonempty example_fs_listing example_scan_keys
  by blast

text \<open>
  The claim as the specification states it fails on the example directory: with one entry
  registered before the scan, the state after \<^verbatim>\<open>_PIPELINES_REGISTRY.clear()\<close> holds the
  empty registry, which is neither the registry of before nor the one of after.
\<close>

theorem scan_not_atomic_counterexample:
  "\<not> spec_atomic_replace example_fs ''./pipelines'' stale_gateway"
proof
  assume h: "spec_atomic_replace example_fs ''./pipelines'' stale_gateway"
  have "stale_gateway\<lparr>PIPELINES_REGISTRY := []\<rparr>
          \<in> set (discover_states example_fs ''./pipelines'' stale_gateway)"
    by (simp add: discover_states_def Let_def)
  with h have "[] = PIPELINES_REGISTRY stale_gateway
      \<or> [] = PIPELINES_REGISTRY (snd (discover_pipelines example_fs ''./pipelines'' stale_gateway))"
    unfolding spec_atomic_replace_def by fastforce
  moreover have "PIPELINES_REGISTRY stale_gateway \<noteq> []"
    by (simp add: stale_gateway_def)
  moreover have "PIPELINES_REGISTRY (snd (discover_pipelines example_fs ''./pipelines'' stale_gateway)) \<noteq> []"
    using example_scan_result by auto
  ultimately show False by metis
qed

text \<open>
  C6, as the code has it. In a directory that can be listed:
  \<^item> a unit that raises an \<^verbatim>\<open>Exception\<close> while loading, has no \<^verbatim>\<open>Pipeline\<close>, or has no
    callable \<^verbatim>\<open>pipe\<close> is skipped and leaves the registry as it is; the log gets one
    warning for each unit scanned that raised an \<^verbatim>\<open>Exception\<close>, and nothing for the
    others;
  \<^item> a unit exits when loading it raises an exception that is not an \<^verbatim>\<open>Exception\<close>
    (\<^verbatim>\<open>SystemExit\<close>, \<^verbatim>\<open>KeyboardInterrupt\<close>). The scan returns exactly when no unit exits;
    otherwise it ends with the exception of the first unit that exits, and the units
    after that one are not scanned;
  \<^item> the registry after the scan is the one the scan would build from the valid units
    among those scanned alone;
  \<^item> the id of every valid unit scanned is a key of the registry, and it maps to that
    unit's own entry unless a later valid unit scanned has the same id, which then holds
    the key.
\<close>

theorem scan_isolates_failures:
  assumes "base_dir \<noteq> []" and "fs base_dir = Listing units"
  shows "(fst (discover_pipelines fs base_dir st) = None \<longleftrightarrow> (\<forall>u \<in> set units. \<not> unit_exits u))
       \<and> (\<forall>before u after ex.
             units = before @ u # after \<and> (\<forall>v \<in> set before. \<not> unit_exits v)
               \<and> unit_exits u \<and> load u = LoadRaises ex
             \<longrightarrow> fst (discover_pipelines fs base_dir st) = Some ex \<and> scanned units = before)
       \<and> ((\<forall>u \<in> set units. \<not> unit_exits u) \<longrightarrow> scanned units = units)
       \<and> (\<forall>u \<in> set units. unit_exits u \<longleftrightarrow>
             endswith (fname u) ''.py'' \<and> (\<exists>ex. load u = LoadRaises ex \<and> \<not> is_Exception ex))
       \<and> PIPELINES_REGISTRY (snd (discover_pipelines fs base_dir st))
           = PIPELINES_REGISTRY
               (snd (discover_pipelines
                       (fs(base_dir := Listing (filter valid_unit (scanned units))))
                       base_dir st))
       \<and> (\<forall>u \<in> set (scanned units). valid_unit u \<longrightarrow>
             (\<exists>k e. registration base_dir u = Some (k, e)
                \<and> k \<in> fst ` set (PIPELINES_REGISTRY (snd (discover_pipelines fs base_dir st)))))
       \<and> (\<forall>before u after k e.
             scanned units = before @ u # after \<and> registration base_dir u = Some (k, e)
               \<and> (\<forall>v \<in> set after. \<forall>e'. registration base_dir v \<noteq> Some (k, e'))
             \<longrightarrow> map_of (PIPELINES_REGISTRY (snd (discover_pipelines fs base_dir st))) k = Some e)
       \<and> (\<forall>u \<in> set units. \<forall>s. \<not> valid_unit u \<longrightarrow>
             PIPELINES_REGISTRY (snd (scan_unit base_dir u s)) = PIPELINES_REGISTRY s)
       \<and> logger (snd (discover_pipelines fs base_dir st))
           = logger st @ List.map_filter (skip_warning base_dir) (scanned units)"
proof -
  have reg: "PIPELINES_REGISTRY (snd (discover_pipelines fs base_dir st))
               = last_write_wins (List.map_filter (registration base_dir) (scanned units)) []"
    using assms by (rule discover_registry_listing)
  have c1: "fst (discover_pipelines fs base_dir st) = None \<longleftrightarrow> (\<forall>u \<in> set units. \<not> unit_exits u)"
    using assms by (simp add: discover_listing scan_units_returns)
  have c1b: "\<forall>before u after ex.
             units = before @ u # after \<and> (\<forall>v \<in> set before. \<not> unit_exits v)
               \<and> unit_exits u \<and> load u = LoadRaises ex
             \<longrightarrow> fst (discover_pipelines fs base_dir st) = Some ex \<and> scanned units = before"
    using assms by (auto simp: discover_listing scan_units_first_exit scanned_before)
  have c1c: "(\<forall>u \<in> set units. \<not> unit_exits u) \<longrightarrow> scanned units = units"
    by (simp add: scanned_all)
  have c1d: "\<forall>u \<in> set units. unit_exits u \<longleftrightarrow>
             endswith (fname u) ''.py'' \<and> (\<exists>ex. load u = LoadRaises ex \<and> \<not> is_Exception ex)"
    by (auto simp: unit_exits_def split: load_result.splits)
  have c2: "PIPELINES_REGISTRY (snd (discover_pipelines fs base_dir st))
           = PIPELINES_REGISTRY
               (snd (discover_pipelines
                       (fs(base_dir := Listing (filter valid_unit (scanned units))))
                       base_dir st))"
    using assms(1) by (simp add: reg fs_upd_listing scanned_valid map_filter_valid)
  have c3: "\<forall>u \<in> set (scanned units). valid_unit u \<longrightarrow>
             (\<exists>k e. registration base_dir u = Some (k, e)
                \<and> k \<in> fst ` set (PIPELINES_REGISTRY (snd (discover_pipelines fs base_dir st))))"
  proof (intro ballI impI)
    fix u assume u: "u \<in> set (scanned units)" and v: "valid_unit u"
    from v obtain k e where r: "registration base_dir u = Some (k, e)"
      using valid_unit_registration [of u base_dir] by auto
    with u have "(k, e) \<in> set (List.map_filter (registration base_dir) (scanned units))"
      by (force simp: List.map_filter_def)
    then have "k \<in> fst ` set (List.map_filter (registration base_dir) (scanned units))"
      by force
    with r show "\<exists>k e. registration base_dir u = Some (k, e)
                \<and> k \<in> fst ` set (PIPELINES_REGISTRY (snd (discover_pipelines fs base_dir st)))"
      by (simp add: reg keys_last_write_wins)
  qed
  have c4: "\<forall>before u after k e.
             scanned units = before @ u # after \<and> registration base_dir u = Some (k, e)
               \<and> (\<forall>v \<in> set after. \<forall>e'. registration base_dir v \<noteq> Some (k, e'))
             \<longrightarrow> map_of (PIPELINES_REGISTRY (snd (discover_pipelines fs base_dir st))) k = Some e"
    unfolding reg using lookup_not_overwritten by blast
  have c5: "\<forall>u \<in> set units. \<forall>s. \<not> valid_unit u \<longrightarrow>
             PIPELINES_REGISTRY (snd (scan_unit base_dir u s)) = PIPELINES_REGISTRY s"
    by (simp add: scan_unit_def valid_unit_def Let_def split: load_result.splits pipe_attr.splits)
  have c6: "logger (snd (discover_pipelines fs base_dir st))
           = logger st @ List.map_filter (skip_warning base_dir) (scanned units)"
    using assms by (simp add: discover_listing scan_units_scanned fold_scan_logger)
  from c1 c1b c1c c1d c2 c3 c4 c5 c6 show ?thesis by blast
qed

theorem scan_isolates_failures_witness:
  "fst (discover_pipelines example_fs ''./pipelines'' stale_gateway) = None
   \<and> map fst (PIPELINES_REGISTRY (snd (discover_pipelines
        (example_fs(''./pipelines'' := Listing (filter valid_unit (scanned example_units))))
        ''./pipelines'' stale_gateway))) = [''time_unix'', ''math_add'']
   \<and> logger (snd (discover_pipelines example_fs ''./pipelines'' stale_gateway))
       = [LogWarning ''Skipping pipeline ./pipelines/broken.py due to load error: invalid syntax'']
   \<and> fst (discover_pipelines exit_fs ''./pipelines'' empty_gateway)
       = Some (PyExit ''SystemExit'' ''1'')
   \<and> scanned exit_units = [first_unit]"
proof -
  have keys: "map fst (PIPELINES_REGISTRY (snd (discover_pipelines example_fs ''./pipelines'' stale_gateway)))
                = [''time_unix'', ''math_add'']"
    using example_scan_result by blast
  have t: "fst (discover_pipelines example_fs ''./pipelines'' stale_gateway) = None
       \<and> PIPELINES_REGISTRY (snd (discover_pipelines example_fs ''./pipelines'' stale_gateway))
           = PIPELINES_REGISTRY
               (snd (discover_pipelines
                  (example_fs(''./pipelines'' := Listing (filter valid_unit (scanned example_units))))
                       ''./pipelines'' stale_gateway))"
    using scan_isolates_failures [of "''./pipelines''" example_fs example_units stale_gateway]
      pipelines_dir_nonempty example_fs_listing example_units_stay
    by blast
  have x: "fst (discover_pipelines exit_fs ''./pipelines'' empty_gateway)
       = Some (PyExit ''SystemExit'' ''1'') \<and> scanned exit_units = [first_unit]"
    using scan_isolates_failures [of "''./pipelines''" exit_fs exit_units empty_gateway]
      pipelines_dir_nonempty exit_fs_listing exit_units_split
    by blast
  from t keys example_scan_result x show ?thesis
    by simp
qed

text \<open>
  The claim as the specification states it fails in two ways. A unit \<^verbatim>\<open>quits.py\<close> that
  calls \<^verbatim>\<open>sys.exit(1)\<close> when it is loaded aborts the scan: the exception leaves
  \<^verbatim>\<open>_discover_pipelines\<close>, and the valid unit \<^verbatim>\<open>last.py\<close> after it is never registered. And
  in the example directory the valid unit \<^verbatim>\<open>echo.py\<close> does not end up registered, though
  no unit fails there to its cost: \<^verbatim>\<open>time_unix.py\<close> declares the same id and holds the key.
\<close>

theorem scan_isolation_counterexample:
  "valid_unit last_unit \<and> last_unit \<in> set exit_units
   \<and> registration ''./pipelines'' last_unit
       = Some (''last'', \<lparr>entry_module = ''pipelines.last'', entry_file = ''./pipelines/last.py'',
                           entry_callable = returning PNone\<rparr>)
   \<and> fst (discover_pipelines exit_fs ''./pipelines'' empty_gateway)
       = Some (PyExit ''SystemExit'' ''1'')
   \<and> map fst (PIPELINES_REGISTRY (snd (discover_pipelines exit_fs ''./pipelines'' empty_gateway)))
       = [''first'']
   \<and> logger (snd (discover_pipelines exit_fs ''./pipelines'' empty_gateway)) = []
   \<and> valid_unit echo_unit \<and> echo_unit \<in> set example_units
   \<and> map_option (\<lambda>(k, e). (k, entry_file e)) (registration ''./pipelines'' echo_unit)
       = Some (''time_unix'', ''./pipelines/echo.py'')
   \<and> map_option entry_file
       (map_of (PIPELINES_REGISTRY (snd (discover_pipelines example_fs ''./pipelines'' stale_gateway)))
          ''time_unix'') = Some ''./pipelines/time_unix.py''"
  using exit_units_facts exit_scan_result echo_unit_facts example_scan_time_unix
  by blast

text \<open>
  C7, as the code has it. For a directory that can be listed, the registry after the scan
  is the last-write-wins fold, in enumeration order, of the registrations of the valid
  units scanned, so a lookup gives the entry of the last valid unit scanned with that id;
  the units scanned are the whole listing whenever the scan returns. A valid unit is
  registered under its derived id with its module name, path and callable. The derived id
  is the attribute \<^verbatim>\<open>id\<close> if it is present and not empty, else the attribute \<^verbatim>\<open>name\<close> if
  it is present and not empty, else the file name without its last three characters,
  which for a file \<^verbatim>\<open>base.py\<close> is \<open>base\<close>.
\<close>

theorem registry_last_write_wins:
  assumes "base_dir \<noteq> []" and "fs base_dir = Listing units"
  shows "PIPELINES_REGISTRY (snd (discover_pipelines fs base_dir st))
           = last_write_wins (List.map_filter (registration base_dir) (scanned units)) []
       \<and> (\<forall>k. map_of (PIPELINES_REGISTRY (snd (discover_pipelines fs base_dir st))) k =
             (if filter (\<lambda>p. fst p = k) (List.map_filter (registration base_dir) (scanned units))
                  = []
              then None
              else Some (snd (last (filter (\<lambda>p. fst p = k)
                                      (List.map_filter (registration base_dir) (scanned units)))))))
       \<and> (fst (discover_pipelines fs base_dir st) = None \<longrightarrow> scanned units = units)
       \<and> (\<forall>u \<in> set units. \<forall>obj pipe_fn.
             endswith (fname u) ''.py'' \<and> load u = Instance obj \<and> inst_pipe obj = Callable pipe_fn
             \<longrightarrow> registration base_dir u =
                   Some (derive_pid obj (fname u),
                         \<lparr>entry_module = ''pipelines.'' @ drop_last3 (fname u),
                          entry_file = os_path_join base_dir (fname u),
                          entry_callable = pipe_fn\<rparr>))
       \<and> (\<forall>u \<in> set units. \<not> valid_unit u \<longrightarrow> registration base_dir u = None)
       \<and> (\<forall>u \<in> set units. \<forall>obj. load u = Instance obj \<longrightarrow>
             (\<forall>i. inst_id obj = Some i \<and> i \<noteq> [] \<longrightarrow> derive_pid obj (fname u) = i)
           \<and> (\<forall>n. \<not> truthy (inst_id obj) \<and> inst_name obj = Some n \<and> n \<noteq> []
                  \<longrightarrow> derive_pid obj (fname u) = n)
           \<and> (\<not> truthy (inst_id obj) \<and> \<not> truthy (inst_name obj)
                  \<longrightarrow> derive_pid obj (fname u) = drop_last3 (fname u)))
       \<and> (\<forall>u \<in> set units. \<forall>base. fname u = base @ ''.py'' \<longrightarrow> drop_last3 (fname u) = base)"
proof -
  have reg: "PIPELINES_REGISTRY (snd (discover_pipelines fs base_dir st))
               = last_write_wins (List.map_filter (registration base_dir) (scanned units)) []"
    using assms by (rule discover_registry_listing)
  have look: "\<forall>k. map_of (PIPELINES_REGISTRY (snd (discover_pipelines fs base_dir st))) k =
             (if filter (\<lambda>p. fst p = k) (List.map_filter (registration base_dir) (scanned units))
                  = []
              then None
              else Some (snd (last (filter (\<lambda>p. fst p = k)
                                      (List.map_filter (registration base_dir) (scanned units))))))"
    by (simp add: reg map_of_last_write_wins)
  have whole: "fst (discover_pipelines fs base_dir st) = None \<longrightarrow> scanned units = units"
    using assms by (simp add: discover_listing scan_units_returns scanned_all)
  have valid: "\<forall>u \<in> set units. \<forall>obj pipe_fn.
             endswith (fname u) ''.py'' \<and> load u = Instance obj \<and> inst_pipe obj = Callable pipe_fn
             \<longrightarrow> registration base_dir u =
                   Some (derive_pid obj (fname u),
                         \<lparr>entry_module = ''pipelines.'' @ drop_last3 (fname u),
                          entry_file = os_path_join base_dir (fname u),
                          entry_callable = pipe_fn\<rparr>)"
    by (simp add: registration_def)
  have invalid: "\<forall>u \<in> set units. \<not> valid_unit u \<longrightarrow> registration base_dir u = None"
    using valid_unit_registration [of _ base_dir] by blast
  have pid: "\<forall>u \<in> set units. \<forall>obj. load u = Instance obj \<longrightarrow>
             (\<forall>i. inst_id obj = Some i \<and> i \<noteq> [] \<longrightarrow> derive_pid obj (fname u) = i)
           \<and> (\<forall>n. \<not> truthy (inst_id obj) \<and> inst_name obj = Some n \<and> n \<noteq> []
                  \<longrightarrow> derive_pid obj (fname u) = n)
           \<and> (\<not> truthy (inst_id obj) \<and> \<not> truthy (inst_name obj)
                  \<longrightarrow> derive_pid obj (fname u) = drop_last3 (fname u))"
    by (simp add: derive_pid_def py_or_def py_str_def truthy_def split: option.splits)
  have base: "\<forall>u \<in> set units. \<forall>base. fname u = base @ ''.py'' \<longrightarrow> drop_last3 (fname u) = base"
    by (simp add: drop_last3_def)
  from reg look whole valid invalid pid base show ?thesis by blast
qed

theorem registry_last_write_wins_witness:
  "map fst (PIPELINES_REGISTRY (snd (discover_pipelines example_fs ''./pipelines'' stale_gateway)))
     = [''time_unix'', ''math_add'']
   \<and> PIPELINES_REGISTRY (snd (discover_pipelines example_fs ''./pipelines'' stale_gateway))
     = last_write_wins (List.map_filter (registration ''./pipelines'') example_units) []
   \<and> map_option entry_file
       (map_of (PIPELINES_REGISTRY (snd (discover_pipelines example_fs ''./pipelines'' stale_gateway)))
          ''time_unix'') = Some ''./pipelines/time_unix.py''"
proof -
  have s: "scanned example_units = example_units"
    using example_units_stay by (rule scanned_all)
  have t: "PIPELINES_REGISTRY (snd (discover_pipelines example_fs ''./pipelines'' stale_gateway))
     = last_write_wins (List.map_filter (registration ''./pipelines'') (scanned example_units)) []"
    using registry_last_write_wins [of "''./pipelines''" example_fs example_units stale_gateway]
      pipelines_dir_nonempty example_fs_listing
    by blast
  with s example_scan_time_unix example_scan_result show ?thesis by simp
qed

text \<open>
  The claim as the specification states it takes the attribute \<^verbatim>\<open>id\<close> whenever it is
  present. A unit \<^verbatim>\<open>tool.py\<close> with \<^verbatim>\<open>id = ""\<close> and \<^verbatim>\<open>name = "tool_name"\<close> is registered
  under \<^verbatim>\<open>tool_name\<close> by the code and under the empty id by that reading.
\<close>

theorem derived_id_counterexample:
  "map fst (PIPELINES_REGISTRY (snd (discover_pipelines unnamed_fs ''./pipelines'' empty_gateway)))
     = [''tool_name'']
   \<and> map fst (spec_registry ''./pipelines'' unnamed_units) = ['''']
   \<and> PIPELINES_REGISTRY (snd (discover_pipelines unnamed_fs ''./pipelines'' empty_gateway))
       \<noteq> spec_registry ''./pipelines'' unnamed_units"
proof -
  have a: "map fst (PIPELINES_REGISTRY (snd (discover_pipelines unnamed_fs ''./pipelines'' empty_gateway)))
     = [''tool_name'']"
    by (simp add: discover_pipelines_def unnamed_fs_def unnamed_units_def empty_gateway_def
        scan_unit_def endswith_def derive_pid_def py_or_def py_str_def truthy_def
        dict_setitem_def Let_def)
  have b: "map fst (spec_registry ''./pipelines'' unnamed_units) = ['''']"
    by (simp add: spec_registry_def spec_registration_def spec_derived_id_def unnamed_units_def
        last_write_wins_def List.map_filter_simps endswith_def dict_setitem_def)
  from a b show ?thesis by auto
qed

section \<open>Properties of the summing handler\<close>




end
